theory Spec2Isabelle
  imports Complex_Main "HOL-Library.Log_Nat" "HOL-Library.Option_ord" "HOL-Library.Sublist"
    "HOL-Library.Word"
begin

section \<open>The relational schema (shared/schema.ts)\<close>

text \<open>
  Every table of \<^verbatim>\<open>shared/schema.ts\<close> that the storage layer reads or writes is a
  record; a column without \<^verbatim>\<open>notNull()\<close> is an option (\<open>None\<close> is SQL NULL). A
  \<^verbatim>\<open>serial\<close> or \<^verbatim>\<open>integer\<close> column is a 32-bit word, read as a signed number by
  \<open>sint\<close>: a stored id or count is never outside that range. User ids are strings,
  timestamps are milliseconds since the epoch (what \<^verbatim>\<open>Date.getTime()\<close> yields). Field
  names are the column names of the schema, prefixed by the table because the tables
  share \<^verbatim>\<open>id\<close>, \<^verbatim>\<open>userId\<close>, \<^verbatim>\<open>voteId\<close> and \<^verbatim>\<open>createdAt\<close>.
\<close>

type_synonym timestamp = int

type_synonym int4 = "32 word"

record user =
  user_id :: string
  user_email :: "string option"
  user_firstName :: "string option"
  user_lastName :: "string option"
  user_profileImageUrl :: "string option"
  user_createdAt :: "timestamp option"
  user_updatedAt :: "timestamp option"

record region =
  region_id :: int4
  region_name :: string
  region_level :: string
  region_parentId :: "int4 option"
  region_createdAt :: "timestamp option"

record vote =
  vote_id :: int4
  vote_question :: string
  vote_creatorId :: string
  vote_regionId :: int4
  vote_isActive :: "bool option"
  vote_endsAt :: "timestamp option"
  vote_createdAt :: "timestamp option"

record voteOption =
  option_id :: int4
  option_voteId :: int4
  option_text :: string
  option_voteCount :: "int4 option"
  option_createdAt :: "timestamp option"

record userVote =
  uv_id :: int4
  uv_userId :: string
  uv_voteId :: int4
  uv_optionId :: int4
  uv_createdAt :: "timestamp option"

record userRegion =
  ur_id :: int4
  ur_userId :: string
  ur_regionId :: int4
  ur_isSelected :: "bool option"
  ur_createdAt :: "timestamp option"

record comment =
  comment_id :: int4
  comment_voteId :: int4
  comment_userId :: string
  comment_content :: string
  comment_createdAt :: "timestamp option"

record like =
  like_id :: int4
  like_voteId :: int4
  like_userId :: string
  like_createdAt :: "timestamp option"

text \<open>
  The database: each table is the list of its rows in storage order, and each serial
  column that the modelled operations insert into has its sequence (the next value of
  \<^verbatim>\<open>nextval\<close>). The code never supplies an id, so an inserted row takes the sequence
  value; the primary-key check of such an insert is not repeated in the model. A
  sequence is taken to be below its maximum: its exhaustion, where \<^verbatim>\<open>nextval\<close>
  raises, is not modelled.
\<close>

record database =
  users :: "user list"
  regions :: "region list"
  votes :: "vote list"
  voteOptions :: "voteOption list"
  userVotes :: "userVote list"
  userRegions :: "userRegion list"
  comments :: "comment list"
  likes :: "like list"
  voteOptions_seq :: int4
  userVotes_seq :: int4
  userRegions_seq :: int4
  likes_seq :: int4

text \<open>
  What the storage layer can raise. The first four are the \<^verbatim>\<open>throw new Error(...)\<close>
  of storage.ts: "User has already voted on this poll", and the three Korean messages
  "no permission to modify the vote", "no permission to delete the vote", "no
  permission to delete the comment" (the routes answer 403 to the first two of these).
  The others come from below the storage layer: a foreign key of the schema violated by
  an insert; a number that is no value of an \<^verbatim>\<open>integer\<close> column, handed to a query or
  produced by an increment (PostgreSQL's "out of range for type integer", and its
  "invalid input syntax" for a number so large that JavaScript prints it with an
  exponent); and the query builder's refusal of an insert with an empty list of rows.
\<close>

datatype error =
    AlreadyVoted
  | NoPermissionToUpdate
  | NoPermissionToDelete
  | NoPermissionToDeleteComment
  | ForeignKeyViolation
  | IntegerOutOfRange
  | EmptyInsert

text \<open>
  A query returns a value or raises (\<open>Inl\<close>); an operation that writes returns that and
  the database after it. \<open>andThen\<close> is \<^verbatim>\<open>await\<close> followed by the rest of the function,
  \<open>forEach\<close> a \<^verbatim>\<open>for ... of\<close> loop that awaits in its body: the first error ends both.
\<close>

type_synonym 'a outcome = "(error + 'a) \<times> database"

definition andThen :: "error + 'a \<Rightarrow> ('a \<Rightarrow> error + 'b) \<Rightarrow> error + 'b" where
  "andThen r f = (case r of Inl e \<Rightarrow> Inl e | Inr x \<Rightarrow> f x)"

fun forEach :: "('a \<Rightarrow> error + 'b) \<Rightarrow> 'a list \<Rightarrow> error + 'b list" where
  "forEach f [] = Inr []"
| "forEach f (x # xs) = andThen (f x) (\<lambda>y. andThen (forEach f xs) (\<lambda>ys. Inr (y # ys)))"

text \<open>
  A \<^verbatim>\<open>number\<close> that the code hands to a query as an id is an integer (what
  \<^verbatim>\<open>parseInt\<close> yields on digits; the routes pass it on unchecked). PostgreSQL binds it
  to the \<^verbatim>\<open>integer\<close> column it is compared with or stored in, and rejects the
  statement, before it has any effect and before a sequence is advanced, when the number
  is outside that column's range. The id of a row that the code has read is within the
  range, so the queries it is handed to do not raise for that reason. \<^verbatim>\<open>NaN\<close> is no
  integer and is not modelled.
\<close>

definition inInt4 :: "int \<Rightarrow> bool" where
  "inInt4 n = (- 2147483648 \<le> n \<and> n \<le> 2147483647)"

section \<open>JavaScript numbers and strings\<close>

text \<open>
  A JavaScript number is an IEEE-754 binary64. Integers below \<open>2^53\<close> in magnitude are
  exact, so sums and differences of counts and timestamps are modelled by \<open>int\<close>. The
  division and the multiplication of the percentage are not exact: each rounds its
  exact result to the nearest binary64, ties to the even significand. \<open>fl\<close> is that
  rounding on the rationals, for the normal range (the operands here are integers below
  \<open>2^53\<close> and the constant 100, so neither overflow nor subnormals arise).
\<close>

definition pow2 :: "int \<Rightarrow> rat" where
  "pow2 k = (if 0 \<le> k then 2 ^ nat k else 1 / 2 ^ nat (- k))"

definition ilog2 :: "rat \<Rightarrow> int" where
  \<comment> \<open>the exponent \<open>e\<close> with \<open>2^e \<le> a < 2^(e+1)\<close>, for \<open>a > 0\<close>\<close>
  "ilog2 a = (let (p, q) = quotient_of a; k = bitlen p - bitlen q
              in if pow2 k \<le> a then k else k - 1)"

definition round_half_even :: "rat \<Rightarrow> int" where
  "round_half_even r =
     (let f = \<lfloor>r\<rfloor>; d = r - of_int f
      in if d < 1 / 2 then f else if 1 / 2 < d then f + 1 else if even f then f else f + 1)"

definition fl :: "rat \<Rightarrow> rat" where
  "fl x = (if x = 0 then 0
           else let ulp = pow2 (ilog2 \<bar>x\<bar> - 52)
                in sgn x * of_int (round_half_even (\<bar>x\<bar> / ulp)) * ulp)"

definition Math_round :: "rat \<Rightarrow> int" where
  \<comment> \<open>\<^verbatim>\<open>Math.round\<close>: the nearest integer, a tie going towards plus infinity\<close>
  "Math_round x = \<lfloor>x + 1 / 2\<rfloor>"

text \<open>
  Strings are byte strings. \<^verbatim>\<open>toLowerCase\<close> and \<^verbatim>\<open>trim\<close> are modelled on ASCII (letters
  A to Z; tab, line feed, vertical tab, form feed, carriage return, space);
  \<^verbatim>\<open>includes\<close> is \<^const>\<open>sublist\<close>, the contiguous-substring test.
\<close>

definition toLowerCase :: "string \<Rightarrow> string" where
  "toLowerCase s =
     map (\<lambda>c. let n = (of_char c :: nat) in if 65 \<le> n \<and> n \<le> 90 then char_of (n + 32) else c) s"

definition isWhiteSpace :: "char \<Rightarrow> bool" where
  "isWhiteSpace c = ((of_char c :: nat) \<in> {9, 10, 11, 12, 13, 32})"

definition trim :: "string \<Rightarrow> string" where
  "trim s = rev (dropWhile isWhiteSpace (rev (dropWhile isWhiteSpace s)))"

definition truthy :: "string option \<Rightarrow> string option" where
  \<comment> \<open>\<^verbatim>\<open>if (s)\<close> on an optional string: undefined and the empty string are falsy\<close>
  "truthy s = (case s of None \<Rightarrow> None | Some t \<Rightarrow> if t = [] then None else Some t)"

definition getTime :: "timestamp option \<Rightarrow> int" where
  \<comment> \<open>\<^verbatim>\<open>new Date(createdAt || 0).getTime()\<close> and \<^verbatim>\<open>new Date(createdAt!).getTime()\<close>: null is the epoch\<close>
  "getTime t = (case t of None \<Rightarrow> 0 | Some ms \<Rightarrow> ms)"

definition desc :: "timestamp option \<Rightarrow> int option" where
  \<comment> \<open>the sort key of SQL \<^verbatim>\<open>ORDER BY c DESC\<close>: NULL first, then the larger value first\<close>
  "desc t = map_option uminus t"

section \<open>The read queries of DatabaseStorage (server/storage.ts)\<close>

text \<open>
  A select is a filter of the table; \<^verbatim>\<open>const [row] = await ...\<close> takes the first row or
  undefined (\<^const>\<open>find\<close>). An inner join pairs each row with the rows of the other
  table that satisfy the join condition. Where SQL leaves an order open (no
  \<^verbatim>\<open>ORDER BY\<close>, or equal sort keys) the model keeps storage order. A column is compared
  with a number of the code through \<open>sint\<close>, and with the id of a row that the code has
  just read as it is.
\<close>

record optionWithPercentage =
  opt :: voteOption
  percentage :: int

record voteWithDetails =
  vote :: vote
  creator :: user
  region :: region
  options :: "optionWithPercentage list"
  totalVotes :: int
  hasUserVoted_of :: bool
  userVotedOptionId :: "int option"
  commentsCount :: nat
  likesCount :: nat
  hasUserLiked_of :: bool

datatype sortBy = participants | newest | oldest

definition getRegionById :: "database \<Rightarrow> int \<Rightarrow> error + region option" where
  "getRegionById db i =
     (if inInt4 i then Inr (find (\<lambda>r. sint (region_id r) = i) (regions db))
      else Inl IntegerOutOfRange)"

definition getUserSelectedRegion :: "database \<Rightarrow> string \<Rightarrow> region option" where
  "getUserSelectedRegion db userId =
     (case [r. ur \<leftarrow> userRegions db, r \<leftarrow> regions db,
               ur_regionId ur = region_id r, ur_userId ur = userId, ur_isSelected ur = Some True]
      of [] \<Rightarrow> None | r # _ \<Rightarrow> Some r)"

definition hasUserVoted :: "database \<Rightarrow> string \<Rightarrow> int \<Rightarrow> error + bool" where
  "hasUserVoted db userId voteId =
     (if inInt4 voteId
      then Inr (find (\<lambda>uv. uv_userId uv = userId \<and> sint (uv_voteId uv) = voteId) (userVotes db) \<noteq> None)
      else Inl IntegerOutOfRange)"

definition getUserVoteOption :: "database \<Rightarrow> string \<Rightarrow> int \<Rightarrow> error + int option" where
  "getUserVoteOption db userId voteId =
     (if inInt4 voteId
      then Inr (map_option (\<lambda>uv. sint (uv_optionId uv))
                  (find (\<lambda>uv. uv_userId uv = userId \<and> sint (uv_voteId uv) = voteId) (userVotes db)))
      else Inl IntegerOutOfRange)"

definition getLikesCount :: "database \<Rightarrow> int \<Rightarrow> error + nat" where
  "getLikesCount db voteId =
     (if inInt4 voteId then Inr (length (filter (\<lambda>l. sint (like_voteId l) = voteId) (likes db)))
      else Inl IntegerOutOfRange)"

definition hasUserLiked :: "database \<Rightarrow> string \<Rightarrow> int \<Rightarrow> error + bool" where
  "hasUserLiked db userId voteId =
     (if inInt4 voteId
      then Inr (find (\<lambda>l. like_userId l = userId \<and> sint (like_voteId l) = voteId) (likes db) \<noteq> None)
      else Inl IntegerOutOfRange)"

definition getCommentsByVote :: "database \<Rightarrow> int \<Rightarrow> error + (comment \<times> user) list" where
  "getCommentsByVote db voteId =
     (if inInt4 voteId
      then Inr (sort_key (\<lambda>(c, u). desc (comment_createdAt c))
                  [(c, u). c \<leftarrow> comments db, u \<leftarrow> users db,
                           comment_userId c = user_id u, sint (comment_voteId c) = voteId])
      else Inl IntegerOutOfRange)"

text \<open>
  The tally, written twice in the source (getVotesByRegion and getVoteById) with the same
  text: \<^verbatim>\<open>options.reduce((sum, option) => sum + (option.voteCount || 0), 0)\<close> and
  \<^verbatim>\<open>totalVotes > 0 ? Math.round(((option.voteCount || 0) / totalVotes) * 100) : 0\<close>.
\<close>

definition voteCountOr0 :: "voteOption \<Rightarrow> int" where
  "voteCountOr0 option = (case option_voteCount option of None \<Rightarrow> 0 | Some c \<Rightarrow> sint c)"

definition sumVoteCounts :: "voteOption list \<Rightarrow> int" where
  "sumVoteCounts opts = foldl (\<lambda>sum option. sum + voteCountOr0 option) 0 opts"

definition percentageOf :: "int \<Rightarrow> int \<Rightarrow> int" where
  "percentageOf voteCount tv =
     (if 0 < tv then Math_round (fl (fl (of_int voteCount / of_int tv) * 100)) else 0)"

definition optionsWithPercentage :: "voteOption list \<Rightarrow> optionWithPercentage list" where
  "optionsWithPercentage opts =
     map (\<lambda>option. \<lparr>opt = option, percentage = percentageOf (voteCountOr0 option) (sumVoteCounts opts)\<rparr>)
       opts"

definition votesJoined :: "database \<Rightarrow> (vote \<Rightarrow> bool) \<Rightarrow> (vote \<times> user \<times> region) list" where
  \<comment> \<open>\<^verbatim>\<open>from(votes).innerJoin(users, creatorId = users.id).innerJoin(regions, regionId = regions.id).where(P)\<close>\<close>
  "votesJoined db P =
     [(v, u, r). v \<leftarrow> votes db, u \<leftarrow> users db, r \<leftarrow> regions db,
                 vote_creatorId v = user_id u, vote_regionId v = region_id r, P v]"

definition getVoteById :: "database \<Rightarrow> int \<Rightarrow> string option \<Rightarrow> error + voteWithDetails option" where
  "getVoteById db i userId =
     (if \<not> inInt4 i then Inl IntegerOutOfRange
      else case votesJoined db (\<lambda>v. sint (vote_id v) = i) of
        [] \<Rightarrow> Inr None
      | (v, u, r) # _ \<Rightarrow>
          let opts = filter (\<lambda>option. sint (option_voteId option) = i) (voteOptions db) in
          andThen (case truthy userId of
                     None \<Rightarrow> Inr (None, False)
                   | Some uid \<Rightarrow>
                       andThen (getUserVoteOption db uid i) (\<lambda>userVoteOption.
                       andThen (hasUserLiked db uid i) (\<lambda>liked. Inr (userVoteOption, liked))))
            (\<lambda>(userVoteOption, liked).
          andThen (getLikesCount db i) (\<lambda>likes_n.
          andThen (getCommentsByVote db i) (\<lambda>cs.
            Inr (Some \<lparr>vote = v, creator = u, region = r,
                       options = optionsWithPercentage opts,
                       totalVotes = sumVoteCounts opts,
                       hasUserVoted_of = (userVoteOption \<noteq> None),
                       userVotedOptionId = userVoteOption,
                       commentsCount = length cs,
                       likesCount = likes_n,
                       hasUserLiked_of = liked\<rparr>)))))"

definition matchesSearch :: "string \<Rightarrow> voteWithDetails \<Rightarrow> bool" where
  "matchesSearch searchTerm v =
     (sublist searchTerm (toLowerCase (vote_question (vote v)))
      \<or> list_ex (\<lambda>option. sublist searchTerm (toLowerCase (option_text (opt option)))) (options v))"

definition applySort :: "sortBy option \<Rightarrow> voteWithDetails list \<Rightarrow> voteWithDetails list" where
  \<comment> \<open>\<^verbatim>\<open>Array.prototype.sort\<close> is stable, as \<^const>\<open>sort_key\<close> is\<close>
  "applySort sortBy result =
     (case sortBy of
        None \<Rightarrow> result
      | Some participants \<Rightarrow> sort_key (\<lambda>a. - totalVotes a) result
      | Some newest \<Rightarrow> sort_key (\<lambda>a. - getTime (vote_createdAt (vote a))) result
      | Some oldest \<Rightarrow> sort_key (\<lambda>a. getTime (vote_createdAt (vote a))) result)"

definition getVotesByRegion ::
  "database \<Rightarrow> int \<Rightarrow> string option \<Rightarrow> string option \<Rightarrow> sortBy option
     \<Rightarrow> error + voteWithDetails list" where
  "getVotesByRegion db regionId userId searchQuery sortBy =
     (if \<not> inInt4 regionId then Inl IntegerOutOfRange
      else
        let votesData = sort_key (\<lambda>(v, u, r). desc (vote_createdAt v))
                          (votesJoined db (\<lambda>v. sint (vote_regionId v) = regionId))
        in andThen (forEach (\<lambda>(v, u, r).
             let opts = filter (\<lambda>option. option_voteId option = vote_id v) (voteOptions db) in
             andThen (case truthy userId of
                        None \<Rightarrow> Inr None
                      | Some uid \<Rightarrow> getUserVoteOption db uid (sint (vote_id v))) (\<lambda>userVoteOption.
             andThen (case truthy userId of
                        None \<Rightarrow> Inr False
                      | Some uid \<Rightarrow> hasUserLiked db uid (sint (vote_id v))) (\<lambda>liked.
               Inr \<lparr>vote = v, creator = u, region = r,
                    options = optionsWithPercentage opts,
                    totalVotes = sumVoteCounts opts,
                    hasUserVoted_of = (userVoteOption \<noteq> None),
                    userVotedOptionId = userVoteOption,
                    commentsCount = length (filter (\<lambda>c. comment_voteId c = vote_id v) (comments db)),
                    likesCount = length (filter (\<lambda>l. like_voteId l = vote_id v) (likes db)),
                    hasUserLiked_of = liked\<rparr>))) votesData)
           (\<lambda>result.
              let result = (case truthy searchQuery of
                              None \<Rightarrow> result
                            | Some q \<Rightarrow> if trim q \<noteq> []
                                      then filter (matchesSearch (toLowerCase q)) result
                                      else result)
              in Inr (applySort sortBy result)))"

definition getVotesByRegionHierarchy ::
  "database \<Rightarrow> int \<Rightarrow> string option \<Rightarrow> string option \<Rightarrow> sortBy option
     \<Rightarrow> error + voteWithDetails list" where
  "getVotesByRegionHierarchy db regionId userId searchQuery sortBy =
     andThen (getRegionById db regionId) (\<lambda>found.
       case found of
         None \<Rightarrow> Inr []
       | Some selectedRegion \<Rightarrow>
           if region_level selectedRegion = ''country'' then
             let allVotes = sort_key (\<lambda>v. desc (vote_createdAt v)) (votes db)
             in andThen (forEach (\<lambda>v. getVoteById db (sint (vote_id v)) userId) allVotes)
                  (\<lambda>details. Inr (List.map_filter (\<lambda>voteDetails. voteDetails) details))
           else if region_level selectedRegion = ''province'' then
             let childRegions = filter (\<lambda>r. map_option sint (region_parentId r) = Some regionId)
                                  (regions db);
                 targetRegionIds = regionId # map (\<lambda>r. sint (region_id r)) childRegions
             in andThen (forEach (\<lambda>targetId.
                           getVotesByRegion db targetId userId searchQuery sortBy) targetRegionIds)
                  (\<lambda>regionVotes.
                     Inr (sort_key (\<lambda>a. - getTime (vote_createdAt (vote a))) (concat regionVotes)))
           else getVotesByRegion db regionId userId searchQuery sortBy)"

section \<open>The write operations of DatabaseStorage\<close>

text \<open>
  Each statement acts on the database as PostgreSQL does under the constraints the schema
  declares: \<^verbatim>\<open>references(..., { onDelete: "cascade" })\<close> makes an insert fail when the
  referenced row is absent and makes a delete remove the referencing rows;
  \<^verbatim>\<open>unique().on(userId, regionId)\<close> decides \<^verbatim>\<open>onConflictDoNothing\<close>. A default
  \<^verbatim>\<open>created_at\<close> is the clock \<open>now\<close> of the call. A sequence value, once drawn, is not
  given back when the statement fails or finds a conflict. Outside a transaction the
  effect of an earlier statement stays when a later one raises.
\<close>

definition insertUserVote :: "timestamp \<Rightarrow> database \<Rightarrow> string \<Rightarrow> int \<Rightarrow> int \<Rightarrow> unit outcome" where
  "insertUserVote now db userId voteId optionId =
     (if \<not> (inInt4 voteId \<and> inInt4 optionId) then (Inl IntegerOutOfRange, db)
      else
        let db1 = db\<lparr>userVotes_seq := userVotes_seq db + 1\<rparr> in
        if list_ex (\<lambda>v. sint (vote_id v) = voteId) (votes db)
           \<and> list_ex (\<lambda>option. sint (option_id option) = optionId) (voteOptions db)
        then (Inr (), db1\<lparr>userVotes := userVotes db @
                [\<lparr>uv_id = userVotes_seq db, uv_userId = userId, uv_voteId = word_of_int voteId,
                  uv_optionId = word_of_int optionId, uv_createdAt = Some now\<rparr>]\<rparr>)
        else (Inl ForeignKeyViolation, db1))"

definition incrementVoteCount :: "database \<Rightarrow> int \<Rightarrow> unit outcome" where
  \<comment> \<open>\<^verbatim>\<open>update(voteOptions).set({ voteCount: sql`voteCount + 1` }).where(eq(voteOptions.id, optionId))\<close>;
      NULL + 1 is NULL, and the largest integer plus 1 is an error\<close>
  "incrementVoteCount db optionId =
     (if \<not> inInt4 optionId then (Inl IntegerOutOfRange, db)
      else if list_ex (\<lambda>option. sint (option_id option) = optionId
                                \<and> option_voteCount option = Some 2147483647) (voteOptions db)
      then (Inl IntegerOutOfRange, db)
      else (Inr (), db\<lparr>voteOptions :=
              map (\<lambda>option. if sint (option_id option) = optionId
                             then option\<lparr>option_voteCount := map_option (\<lambda>c. c + 1) (option_voteCount option)\<rparr>
                             else option) (voteOptions db)\<rparr>))"

definition castVote :: "timestamp \<Rightarrow> database \<Rightarrow> string \<Rightarrow> int \<Rightarrow> int \<Rightarrow> unit outcome" where
  "castVote now db userId voteId optionId =
     (case hasUserVoted db userId voteId of
        Inl e \<Rightarrow> (Inl e, db)
      | Inr existingVote \<Rightarrow>
          if existingVote then (Inl AlreadyVoted, db)
          else case insertUserVote now db userId voteId optionId of
                 (Inl e, db1) \<Rightarrow> (Inl e, db1)
               | (Inr _, db1) \<Rightarrow> incrementVoteCount db1 optionId)"

definition deleteVoteOptions :: "database \<Rightarrow> (voteOption \<Rightarrow> bool) \<Rightarrow> database" where
  \<comment> \<open>delete from vote_options where P; user_votes.option_id cascades\<close>
  "deleteVoteOptions db P =
     (let deleted = map option_id (filter P (voteOptions db))
      in db\<lparr>voteOptions := filter (\<lambda>option. \<not> P option) (voteOptions db),
            userVotes := filter (\<lambda>uv. uv_optionId uv \<notin> set deleted) (userVotes db)\<rparr>)"

definition insertVoteOptions :: "timestamp \<Rightarrow> database \<Rightarrow> int \<Rightarrow> string list \<Rightarrow> database" where
  \<comment> \<open>\<^verbatim>\<open>insert(voteOptions).values(newOptions)\<close>: the key \<^verbatim>\<open>order\<close> of the source is no column
      and is dropped; vote_count takes its default 0\<close>
  "insertVoteOptions now db voteId texts =
     db\<lparr>voteOptions := voteOptions db @
            map (\<lambda>(index, text). \<lparr>option_id = voteOptions_seq db + of_nat index,
                                   option_voteId = word_of_int voteId,
                                   option_text = text, option_voteCount = Some 0,
                                   option_createdAt = Some now\<rparr>) (enumerate 0 texts),
        voteOptions_seq := voteOptions_seq db + of_nat (length texts)\<rparr>"

definition updateVote ::
  "timestamp \<Rightarrow> database \<Rightarrow> int \<Rightarrow> string \<Rightarrow> string \<Rightarrow> string list \<Rightarrow> vote outcome" where
  \<comment> \<open>the statements after the ownership check run in one transaction: a failure inside
      leaves the database as it was. The vote row was found, so the foreign key of the new
      options holds.\<close>
  "updateVote now db voteId userId question opts =
     (if \<not> inInt4 voteId then (Inl IntegerOutOfRange, db)
      else case find (\<lambda>v. sint (vote_id v) = voteId) (votes db) of
        None \<Rightarrow> (Inl NoPermissionToUpdate, db)
      | Some v \<Rightarrow>
          if vote_creatorId v \<noteq> userId then (Inl NoPermissionToUpdate, db)
          else
            let db1 = db\<lparr>votes := map (\<lambda>w. if sint (vote_id w) = voteId
                                              then w\<lparr>vote_question := question\<rparr> else w)
                                    (votes db)\<rparr>;
                updatedVote = v\<lparr>vote_question := question\<rparr>;
                db2 = deleteVoteOptions db1 (\<lambda>option. sint (option_voteId option) = voteId)
            in if opts = [] then (Inl EmptyInsert, db)
               else (Inr updatedVote, insertVoteOptions now db2 voteId opts))"

definition deleteVotes :: "database \<Rightarrow> int \<Rightarrow> database" where
  \<comment> \<open>delete from votes where id = voteId, with the cascades of vote_options, user_votes,
      comments and likes\<close>
  "deleteVotes db voteId =
     (let db1 = deleteVoteOptions db (\<lambda>option. sint (option_voteId option) = voteId)
      in db1\<lparr>votes := filter (\<lambda>v. sint (vote_id v) \<noteq> voteId) (votes db1),
             userVotes := filter (\<lambda>uv. sint (uv_voteId uv) \<noteq> voteId) (userVotes db1),
             comments := filter (\<lambda>c. sint (comment_voteId c) \<noteq> voteId) (comments db1),
             likes := filter (\<lambda>l. sint (like_voteId l) \<noteq> voteId) (likes db1)\<rparr>)"

definition deleteVote :: "database \<Rightarrow> int \<Rightarrow> string \<Rightarrow> unit outcome" where
  "deleteVote db voteId userId =
     (if \<not> inInt4 voteId then (Inl IntegerOutOfRange, db)
      else case find (\<lambda>v. sint (vote_id v) = voteId) (votes db) of
        None \<Rightarrow> (Inl NoPermissionToDelete, db)
      | Some v \<Rightarrow>
          if vote_creatorId v \<noteq> userId then (Inl NoPermissionToDelete, db)
          else (Inr (), deleteVotes db voteId))"

definition deleteComment :: "database \<Rightarrow> int \<Rightarrow> string \<Rightarrow> unit outcome" where
  "deleteComment db commentId userId =
     (if \<not> inInt4 commentId then (Inl IntegerOutOfRange, db)
      else case find (\<lambda>c. sint (comment_id c) = commentId) (comments db) of
        None \<Rightarrow> (Inl NoPermissionToDeleteComment, db)
      | Some c \<Rightarrow>
          if comment_userId c \<noteq> userId then (Inl NoPermissionToDeleteComment, db)
          else (Inr (), db\<lparr>comments := filter (\<lambda>c. sint (comment_id c) \<noteq> commentId) (comments db)\<rparr>))"

definition toggleLike :: "timestamp \<Rightarrow> database \<Rightarrow> string \<Rightarrow> int \<Rightarrow> bool outcome" where
  "toggleLike now db userId voteId =
     (if \<not> inInt4 voteId then (Inl IntegerOutOfRange, db)
      else
        let existingLike = filter (\<lambda>l. like_userId l = userId \<and> sint (like_voteId l) = voteId) (likes db)
        in if 0 < length existingLike
           then (Inr False,
                 db\<lparr>likes := filter (\<lambda>l. \<not> (like_userId l = userId \<and> sint (like_voteId l) = voteId))
                                (likes db)\<rparr>)
           else if list_ex (\<lambda>v. sint (vote_id v) = voteId) (votes db)
           then (Inr True,
                 db\<lparr>likes := likes db @ [\<lparr>like_id = likes_seq db, like_voteId = word_of_int voteId,
                                          like_userId = userId, like_createdAt = Some now\<rparr>],
                    likes_seq := likes_seq db + 1\<rparr>)
           else (Inl ForeignKeyViolation, db\<lparr>likes_seq := likes_seq db + 1\<rparr>))"

definition setUserSelectedRegion :: "timestamp \<Rightarrow> database \<Rightarrow> string \<Rightarrow> int \<Rightarrow> unit outcome" where
  \<comment> \<open>two statements and no transaction: the clearing update has happened when the insert
      raises\<close>
  "setUserSelectedRegion now db userId regionId =
     (let db1 = db\<lparr>userRegions := map (\<lambda>ur. if ur_userId ur = userId
                                               then ur\<lparr>ur_isSelected := Some False\<rparr> else ur)
                                      (userRegions db)\<rparr>
      in if \<not> inInt4 regionId then (Inl IntegerOutOfRange, db1)
         else
           let db2 = db1\<lparr>userRegions_seq := userRegions_seq db1 + 1\<rparr>
           in if list_ex (\<lambda>ur. ur_userId ur = userId \<and> sint (ur_regionId ur) = regionId)
                   (userRegions db1)
              then (Inr (), db2)
              else (Inr (), db2\<lparr>userRegions := userRegions db1 @
                      [\<lparr>ur_id = userRegions_seq db1, ur_userId = userId,
                        ur_regionId = word_of_int regionId,
                        ur_isSelected = Some True, ur_createdAt = Some now\<rparr>]\<rparr>))"

section \<open>The specification's side\<close>

text \<open>
  The schema's constraints that the theorems below rely on are stated where they are
  used: a primary key is \<open>distinct (map vote_id (votes db))\<close>, the unique pair of
  \<^verbatim>\<open>likes\<close> is \<open>distinct (map (\<lambda>l. (like_userId l, like_voteId l)) (likes db))\<close>.
\<close>

definition specPercentage :: "int \<Rightarrow> int \<Rightarrow> int" where
  \<comment> \<open>the specification's percentage: round-half-up of the exact quotient
      \<open>voteCount / totalVotes * 100\<close>, and 0 without votes\<close>
  "specPercentage voteCount tv =
     (if 0 < tv then \<lfloor>(of_int voteCount / of_int tv * 100 :: rat) + 1 / 2\<rfloor> else 0)"

definition hasCreator :: "database \<Rightarrow> vote \<Rightarrow> bool" where
  "hasCreator db v = list_ex (\<lambda>u. user_id u = vote_creatorId v) (users db)"

definition hasRegion :: "database \<Rightarrow> vote \<Rightarrow> bool" where
  "hasRegion db v = list_ex (\<lambda>r. region_id r = vote_regionId v) (regions db)"

definition visibleUnderRule :: "database \<Rightarrow> region \<Rightarrow> vote \<Rightarrow> bool" where
  \<comment> \<open>the specification's three-level rule: a country shows the polls of every region, a
      province its own polls and those of the regions whose parent it is, a city its own\<close>
  "visibleUnderRule db selected v =
     (if region_level selected = ''country'' then hasRegion db v
      else if region_level selected = ''province'' then
        vote_regionId v = region_id selected
        \<or> list_ex (\<lambda>r. region_id r = vote_regionId v \<and> region_parentId r = Some (region_id selected))
             (regions db)
      else if region_level selected = ''city'' then vote_regionId v = region_id selected
      else False)"

section \<open>An example database\<close>

definition alice :: user where
  "alice = \<lparr>user_id = ''alice'', user_email = None, user_firstName = Some ''Alice'',
            user_lastName = None, user_profileImageUrl = None,
            user_createdAt = Some 10, user_updatedAt = Some 10\<rparr>"

definition bob :: user where
  "bob = \<lparr>user_id = ''bob'', user_email = None, user_firstName = Some ''Bob'',
          user_lastName = None, user_profileImageUrl = None,
          user_createdAt = Some 20, user_updatedAt = Some 20\<rparr>"

definition korea :: region where
  "korea = \<lparr>region_id = 1, region_name = ''Korea'', region_level = ''country'',
            region_parentId = None, region_createdAt = Some 1\<rparr>"

definition seoul :: region where
  "seoul = \<lparr>region_id = 2, region_name = ''Seoul'', region_level = ''province'',
            region_parentId = Some 1, region_createdAt = Some 1\<rparr>"

definition gangnam :: region where
  "gangnam = \<lparr>region_id = 3, region_name = ''Gangnam'', region_level = ''city'',
              region_parentId = Some 2, region_createdAt = Some 1\<rparr>"

definition busan :: region where
  "busan = \<lparr>region_id = 4, region_name = ''Busan'', region_level = ''province'',
            region_parentId = Some 1, region_createdAt = Some 1\<rparr>"

definition lunchPoll :: vote where
  "lunchPoll = \<lparr>vote_id = 1, vote_question = ''Lunch'', vote_creatorId = ''alice'',
                vote_regionId = 3, vote_isActive = Some True, vote_endsAt = None,
                vote_createdAt = Some 100\<rparr>"

definition dinnerPoll :: vote where
  "dinnerPoll = \<lparr>vote_id = 2, vote_question = ''Dinner'', vote_creatorId = ''bob'',
                 vote_regionId = 2, vote_isActive = Some True, vote_endsAt = None,
                 vote_createdAt = Some 200\<rparr>"

definition beachPoll :: vote where
  "beachPoll = \<lparr>vote_id = 3, vote_question = ''Beach'', vote_creatorId = ''alice'',
                vote_regionId = 4, vote_isActive = Some True, vote_endsAt = None,
                vote_createdAt = Some 300\<rparr>"

definition exampleDb :: database where
  \<comment> \<open>the lunch poll (city Gangnam) has 3 and 1 votes, the dinner poll (province Seoul)
      23 and 17, the beach poll (province Busan) no options yet\<close>
  "exampleDb =
     \<lparr>users = [alice, bob],
      regions = [korea, seoul, gangnam, busan],
      votes = [lunchPoll, dinnerPoll, beachPoll],
      voteOptions =
        [\<lparr>option_id = 1, option_voteId = 1, option_text = ''A'', option_voteCount = Some 3,
          option_createdAt = Some 100\<rparr>,
         \<lparr>option_id = 2, option_voteId = 1, option_text = ''B'', option_voteCount = Some 1,
          option_createdAt = Some 100\<rparr>,
         \<lparr>option_id = 3, option_voteId = 2, option_text = ''X'', option_voteCount = Some 23,
          option_createdAt = Some 200\<rparr>,
         \<lparr>option_id = 4, option_voteId = 2, option_text = ''Y'', option_voteCount = Some 17,
          option_createdAt = Some 200\<rparr>],
      userVotes =
        [\<lparr>uv_id = 1, uv_userId = ''bob'', uv_voteId = 1, uv_optionId = 1, uv_createdAt = Some 110\<rparr>],
      userRegions =
        [\<lparr>ur_id = 1, ur_userId = ''alice'', ur_regionId = 3, ur_isSelected = Some True,
          ur_createdAt = Some 50\<rparr>,
         \<lparr>ur_id = 2, ur_userId = ''bob'', ur_regionId = 2, ur_isSelected = Some True,
          ur_createdAt = Some 60\<rparr>],
      comments =
        [\<lparr>comment_id = 1, comment_voteId = 1, comment_userId = ''bob'', comment_content = ''hi'',
          comment_createdAt = Some 120\<rparr>],
      likes =
        [\<lparr>like_id = 1, like_voteId = 1, like_userId = ''bob'', like_createdAt = Some 130\<rparr>],
      voteOptions_seq = 5, userVotes_seq = 2, userRegions_seq = 3, likes_seq = 2\<rparr>"

definition ghostDb :: database where
  \<comment> \<open>the example without the users row of alice, who created the lunch poll\<close>
  "ghostDb = exampleDb\<lparr>users := [bob]\<rparr>"

section \<open>Auxiliary facts\<close>

subsection \<open>The rounding of binary64\<close>

text \<open>
  \<open>fl\<close> returns a number within half a unit in the last place of its argument: the
  relative error is at most \<open>2^-53\<close>. For counts \<open>0 \<le> c \<le> t < 2^44\<close> the percentage the
  code computes is therefore the specification's round-half-up percentage unless
  \<open>100 * c / t\<close> lies exactly halfway between two integers, where it is that or one less.
\<close>

lemma pow2_powi: "pow2 k = 2 powi k"
  by (simp add: pow2_def power_int_def inverse_eq_divide power_one_over)

lemma pow2_pos: "0 < pow2 k"
  by (simp add: pow2_powi)

lemma pow2_add: "pow2 (a + b) = pow2 a * pow2 b"
  by (simp add: pow2_powi power_int_add)

lemma quotient_bounds:
  fixes p q :: int
  assumes "0 < p" "0 < q"
  shows "pow2 (bitlen p - bitlen q - 1) < of_int p / of_int q"
    and "of_int p / of_int q < pow2 (bitlen p - bitlen q + 1)"
proof -
  have bp: "2 ^ nat (bitlen p - 1) \<le> p" "p < 2 ^ nat (bitlen p)"
    using bitlen_bounds [OF assms(1)] by auto
  have bq: "2 ^ nat (bitlen q - 1) \<le> q" "q < 2 ^ nat (bitlen q)"
    using bitlen_bounds [OF assms(2)] by auto
  have "0 < bitlen p"
    using bp(2) assms(1) by (cases "bitlen p \<le> 0") auto
  moreover have "0 < bitlen q"
    using bq(2) assms(2) by (cases "bitlen q \<le> 0") auto
  ultimately have pp: "0 < bitlen p" "0 < bitlen q"
    by blast+
  have p1: "pow2 (bitlen p - 1) \<le> of_int p"
    using bp(1) pp(1) of_int_le_iff [of "2 ^ nat (bitlen p - 1)" p, where ?'a = rat]
    by (simp add: pow2_def)
  have p2: "of_int p < pow2 (bitlen p)"
    using bp(2) pp(1) of_int_less_iff [of p "2 ^ nat (bitlen p)", where ?'a = rat]
    by (simp add: pow2_def)
  have q1: "pow2 (bitlen q - 1) \<le> of_int q"
    using bq(1) pp(2) of_int_le_iff [of "2 ^ nat (bitlen q - 1)" q, where ?'a = rat]
    by (simp add: pow2_def)
  have q2: "of_int q < pow2 (bitlen q)"
    using bq(2) pp(2) of_int_less_iff [of q "2 ^ nat (bitlen q)", where ?'a = rat]
    by (simp add: pow2_def)
  have qpos: "(0::rat) < of_int q" using assms by simp
  have "pow2 (bitlen p - bitlen q - 1) * of_int q < pow2 (bitlen p - bitlen q - 1) * pow2 (bitlen q)"
    using q2 pow2_pos by simp
  also have "\<dots> = pow2 (bitlen p - 1)"
    by (simp add: pow2_add [symmetric])
  also have "\<dots> \<le> of_int p" by (rule p1)
  finally show "pow2 (bitlen p - bitlen q - 1) < of_int p / of_int q"
    using qpos by (simp add: pos_less_divide_eq)
  have "of_int p < pow2 (bitlen p)" by (rule p2)
  also have "\<dots> = pow2 (bitlen p - bitlen q + 1) * pow2 (bitlen q - 1)"
    by (simp add: pow2_add [symmetric])
  also have "\<dots> \<le> pow2 (bitlen p - bitlen q + 1) * of_int q"
    using q1 pow2_pos by simp
  finally show "of_int p / of_int q < pow2 (bitlen p - bitlen q + 1)"
    using qpos by (simp add: pos_divide_less_eq)
qed

lemma ilog2_bounds:
  assumes "0 < a"
  shows "pow2 (ilog2 a) \<le> a" and "a < pow2 (ilog2 a + 1)"
proof -
  obtain p q where pq: "quotient_of a = (p, q)"
    by (cases "quotient_of a")
  then have a: "a = of_int p / of_int q" and q: "0 < q"
    using quotient_of_div quotient_of_denom_pos by blast+
  with assms have p: "0 < p"
    by (simp add: zero_less_divide_iff)
  note b = quotient_bounds [OF p q, folded a]
  show "pow2 (ilog2 a) \<le> a"
    using b(1) by (auto simp: ilog2_def pq Let_def)
  show "a < pow2 (ilog2 a + 1)"
    using b(2) by (auto simp: ilog2_def pq Let_def)
qed

lemma round_half_even_near: "\<bar>of_int (round_half_even r) - r\<bar> \<le> 1 / 2"
proof -
  have "of_int \<lfloor>r\<rfloor> \<le> r" "r < of_int \<lfloor>r\<rfloor> + 1"
    by linarith+
  then show ?thesis
    by (auto simp: round_half_even_def Let_def abs_le_iff)
qed

lemma fl_error: "\<bar>fl x - x\<bar> \<le> \<bar>x\<bar> / 2 ^ 53"
proof (cases "x = 0")
  case True
  then show ?thesis by (simp add: fl_def)
next
  case False
  define a where "a = \<bar>x\<bar>"
  define ulp where "ulp = pow2 (ilog2 a - 52)"
  define m where "m = round_half_even (a / ulp)"
  have apos: "0 < a" using False by (simp add: a_def)
  have upos: "0 < ulp" by (simp add: ulp_def pow2_pos)
  have flx: "fl x = sgn x * (of_int m * ulp)"
    using False by (simp add: fl_def Let_def a_def ulp_def m_def)
  have x: "x = sgn x * a"
    by (simp add: a_def sgn_mult_abs)
  have "\<bar>fl x - x\<bar> = \<bar>sgn x * (of_int m * ulp - a)\<bar>"
    by (subst (2) x) (simp add: flx algebra_simps)
  also have "\<dots> = \<bar>of_int m * ulp - a\<bar>"
    using False by (simp add: abs_mult abs_sgn_eq)
  also have "\<dots> = \<bar>of_int m - a / ulp\<bar> * ulp"
  proof -
    have "of_int m * ulp - a = (of_int m - a / ulp) * ulp"
      using upos by (simp add: field_simps)
    then show ?thesis
      using upos by (simp add: abs_mult)
  qed
  also have "\<dots> \<le> 1 / 2 * ulp"
    using round_half_even_near [of "a / ulp"] upos
    by (intro mult_right_mono) (simp_all add: m_def)
  also have "1 / 2 * ulp = pow2 (ilog2 a) / 2 ^ 53"
  proof -
    have "pow2 (ilog2 a) = pow2 (ilog2 a - 52) * pow2 52"
      by (simp add: pow2_add [symmetric])
    then show ?thesis
      by (simp add: ulp_def pow2_def)
  qed
  also have "\<dots> \<le> a / 2 ^ 53"
    using ilog2_bounds(1) [OF apos] by (simp add: divide_right_mono)
  finally show ?thesis
    by (simp add: a_def)
qed

lemma percentage_error:
  fixes c t :: int
  assumes "0 \<le> c" "c \<le> t" "0 < t"
  shows "\<bar>fl (fl (of_int c / of_int t) * 100) - of_int c / of_int t * 100\<bar> \<le> 201 / 2 ^ 53"
proof -
  define q :: rat where "q = of_int c / of_int t"
  define f1 where "f1 = fl q"
  define f2 where "f2 = fl (f1 * 100)"
  define u :: rat where "u = 1 / 2 ^ 53"
  have u0: "0 < u" and u1: "100 * u \<le> 1"
    by (simp_all add: u_def)
  have err: "\<bar>fl y - y\<bar> \<le> \<bar>y\<bar> * u" for y
    using fl_error [of y] by (simp add: u_def)
  have q0: "0 \<le> q" and q1: "q \<le> 1"
    using assms by (simp_all add: q_def)
  have "\<bar>f1 - q\<bar> \<le> \<bar>q\<bar> * u"
    unfolding f1_def by (rule err)
  also have "\<bar>q\<bar> * u \<le> 1 * u"
    using q0 q1 u0 by (intro mult_right_mono) simp_all
  finally have e1: "\<bar>f1 - q\<bar> \<le> u"
    by simp
  then have f1b: "\<bar>f1\<bar> \<le> 1 + u"
    using q0 q1 by linarith
  have "\<bar>f2 - f1 * 100\<bar> \<le> \<bar>f1 * 100\<bar> * u"
    unfolding f2_def by (rule err)
  also have "\<bar>f1 * 100\<bar> * u = \<bar>f1\<bar> * (100 * u)"
    by (simp add: abs_mult)
  also have "\<dots> \<le> (1 + u) * (100 * u)"
    using f1b u0 by (intro mult_right_mono) simp_all
  also have "\<dots> = 100 * u + (100 * u) * u"
    by (simp add: algebra_simps)
  also have "\<dots> \<le> 100 * u + 1 * u"
    using u1 u0 by (intro add_left_mono mult_right_mono) simp_all
  finally have e2: "\<bar>f2 - f1 * 100\<bar> \<le> 101 * u"
    by simp
  have "\<bar>f1 * 100 - q * 100\<bar> = \<bar>(f1 - q) * 100\<bar>"
    by (simp only: left_diff_distrib)
  also have "\<dots> = \<bar>f1 - q\<bar> * 100"
    by (simp only: abs_mult abs_numeral)
  also have "\<dots> \<le> u * 100"
    using e1 by simp
  finally have e3: "\<bar>f1 * 100 - q * 100\<bar> \<le> 100 * u"
    by simp
  have "\<bar>f2 - q * 100\<bar> \<le> 201 * u"
    using e2 e3 by linarith
  then show ?thesis
    by (simp add: f2_def f1_def q_def u_def)
qed

lemma percentageOf_spec:
  fixes c t :: int
  assumes "0 \<le> c" "c \<le> t" "0 < t" "t < 2 ^ 44"
  shows "(200 * c + t) mod (2 * t) \<noteq> 0 \<Longrightarrow> percentageOf c t = specPercentage c t"
    and "percentageOf c t = specPercentage c t \<or> percentageOf c t = specPercentage c t - 1"
proof -
  define x :: rat where "x = of_int c / of_int t * 100"
  define z where "z = x + 1 / 2"
  define w where "w = fl (fl (of_int c / of_int t) * 100) + 1 / 2"
  define n where "n = \<lfloor>z\<rfloor>"
  define eps :: rat where "eps = 201 / 2 ^ 53"
  define T :: rat where "T = of_int (2 * t)"
  have spec: "specPercentage c t = n"
    using assms(3) by (simp add: specPercentage_def n_def z_def x_def)
  have code: "percentageOf c t = \<lfloor>w\<rfloor>"
    using assms(3) by (simp add: percentageOf_def Math_round_def w_def)
  have wz: "\<bar>w - z\<bar> \<le> eps"
    using percentage_error [OF assms(1-3)] by (simp add: w_def z_def x_def eps_def)
  have nz: "of_int n \<le> z" "z < of_int n + 1"
    unfolding n_def by linarith+
  have Tpos: "0 < T"
    using assms(3) by (simp add: T_def)
  have small: "eps * T < 1"
  proof -
    have "2 * t < 2 ^ 45"
      using assms(4) by simp
    then have "T < of_int (2 ^ 45)"
      unfolding T_def by (simp only: of_int_less_iff)
    then have "T < 2 ^ 45"
      by simp
    then have "eps * T < eps * 2 ^ 45"
      by (simp add: eps_def)
    also have "\<dots> < 1"
      by (simp add: eps_def)
    finally show ?thesis .
  qed
  have eps1: "eps < 1" and eps0: "0 \<le> eps"
    by (simp_all add: eps_def)
  have zN: "z * T = of_int (200 * c + t)"
    using assms(3) by (simp add: z_def x_def T_def field_simps)
  have apart: "eps < y" if "1 \<le> y * T" for y
  proof -
    have "eps * T < y * T"
      using small that by linarith
    then show ?thesis
      using Tpos by (simp only: mult_less_cancel_right_pos)
  qed
  show tieless: "percentageOf c t = specPercentage c t" if nt: "(200 * c + t) mod (2 * t) \<noteq> 0"
  proof -
    have lo_int: "(z - of_int n) * T = of_int (200 * c + t - 2 * t * n)"
      unfolding left_diff_distrib zN by (simp add: T_def)
    have "0 \<le> (z - of_int n) * T"
      using nz(1) Tpos by simp
    then have "0 \<le> 200 * c + t - 2 * t * n"
      unfolding lo_int by (simp only: of_int_0_le_iff)
    moreover have "200 * c + t - 2 * t * n \<noteq> 0"
    proof
      assume "200 * c + t - 2 * t * n = 0"
      then have "200 * c + t = (2 * t) * n"
        by simp
      then have "(200 * c + t) mod (2 * t) = 0"
        by (simp only: mod_mult_self1_is_0)
      with nt show False ..
    qed
    ultimately have "1 \<le> 200 * c + t - 2 * t * n"
      by linarith
    then have "(1::rat) \<le> of_int (200 * c + t - 2 * t * n)"
      by (simp only: of_int_1_le_iff)
    then have lo: "eps < z - of_int n"
      unfolding lo_int [symmetric] by (rule apart)
    have hi_int: "(of_int n + 1 - z) * T = of_int (2 * t * (n + 1) - (200 * c + t))"
      unfolding left_diff_distrib zN by (simp add: T_def algebra_simps)
    have "0 < (of_int n + 1 - z) * T"
      using nz(2) Tpos by simp
    then have "0 < 2 * t * (n + 1) - (200 * c + t)"
      unfolding hi_int by (simp only: of_int_0_less_iff)
    then have "1 \<le> 2 * t * (n + 1) - (200 * c + t)"
      by linarith
    then have "(1::rat) \<le> of_int (2 * t * (n + 1) - (200 * c + t))"
      by (simp only: of_int_1_le_iff)
    then have hi: "eps < of_int n + 1 - z"
      unfolding hi_int [symmetric] by (rule apart)
    have "of_int n \<le> w" "w < of_int n + 1"
      using wz lo hi by linarith+
    then have "\<lfloor>w\<rfloor> = n"
      by (rule floor_unique)
    then show ?thesis
      by (simp add: spec code)
  qed
  show "percentageOf c t = specPercentage c t \<or> percentageOf c t = specPercentage c t - 1"
  proof (cases "(200 * c + t) mod (2 * t) = 0")
    case False
    then show ?thesis
      using tieless by simp
  next
    case True
    then have "2 * t dvd 200 * c + t"
      by (simp only: dvd_eq_mod_eq_0)
    then obtain k where k: "200 * c + t = 2 * t * k"
      by (rule dvdE)
    have "z * T = of_int k * T"
      unfolding zN k by (simp add: T_def)
    then have "z = of_int k"
      using Tpos by simp
    then have zn: "z = of_int n"
      by (simp add: n_def)
    show ?thesis
    proof (cases "of_int n \<le> w")
      case True
      moreover have "w < of_int n + 1"
        using wz zn eps1 by linarith
      ultimately have "\<lfloor>w\<rfloor> = n"
        by (rule floor_unique)
      then show ?thesis
        by (simp add: spec code)
    next
      case False
      then have "w < of_int (n - 1) + 1"
        by simp
      moreover have "of_int n - 1 \<le> w"
        using wz zn eps1 by linarith
      then have "of_int (n - 1) \<le> w"
        by simp
      ultimately have "\<lfloor>w\<rfloor> = n - 1"
        by (intro floor_unique)
      then show ?thesis
        by (simp add: spec code)
    qed
  qed
qed

lemma fl_examples:
  "fl (3 / 4) = 3 / 4"
  "fl (1 / 10) = 3602879701896397 / 36028797018963968"
  "fl (23 / 40) = 2589569785738035 / 4503599627370496"
  "fl (fl (23 / 40) * 100) = 8092405580431359 / 140737488355328"
  by code_simp+

subsection \<open>Numbers and stored ids\<close>

lemma sint_inInt4 [simp]: "inInt4 (sint (w :: int4))"
  using sint_ge [of w] sint_lt [of w] by (simp add: inInt4_def)

lemma sint_eq_iff [simp]: "sint (w :: int4) = sint v \<longleftrightarrow> w = v"
  by (auto intro: signed_word_eqI)

lemma sint_word_of_int: "inInt4 i \<Longrightarrow> sint (word_of_int i :: int4) = i"
  by (simp add: sint_sbintrunc' inInt4_def signed_take_bit_int_eq_self)

lemma sint_image_inInt4: "i \<in> (\<lambda>x. sint (f x :: int4)) ` A \<Longrightarrow> inInt4 i"
  by auto

lemma andThen_Inr [simp]: "andThen (Inr x) f = f x"
  by (simp add: andThen_def)

lemma andThen_Inl [simp]: "andThen (Inl e) f = Inl e"
  by (simp add: andThen_def)

lemma forEach_all:
  assumes "\<And>x. x \<in> set xs \<Longrightarrow> \<exists>y. f x = Inr y \<and> P x y"
  shows "\<exists>ys. forEach f xs = Inr ys \<and> list_all2 P xs ys"
  using assms
proof (induction xs)
  case Nil
  then show ?case by simp
next
  case (Cons x xs)
  then obtain y where y: "f x = Inr y" "P x y"
    by auto
  from Cons obtain ys where ys: "forEach f xs = Inr ys" "list_all2 P xs ys"
    by auto
  from y ys show ?case
    by simp
qed

subsection \<open>Tables, joins and sorting\<close>

lemma hasUserVoted_iff:
  "hasUserVoted db userId voteId = Inr True \<longleftrightarrow>
     inInt4 voteId \<and> (\<exists>uv\<in>set (userVotes db). uv_userId uv = userId \<and> sint (uv_voteId uv) = voteId)"
  by (auto simp: hasUserVoted_def find_None_iff)

lemma incrementVoteCount_userVotes:
  "incrementVoteCount db optionId = (r, db') \<Longrightarrow> userVotes db' = userVotes db"
  by (auto simp: incrementVoteCount_def split: if_splits)

lemma castVote_duplicate:
  "hasUserVoted db userId voteId = Inr True \<Longrightarrow>
   castVote now db userId voteId optionId = (Inl AlreadyVoted, db)"
  by (simp add: castVote_def)

lemma castVote_success_recorded:
  assumes "castVote now db userId voteId optionId = (Inr (), db')"
  shows "hasUserVoted db' userId voteId = Inr True"
proof -
  from assms obtain db1 where
    ins: "insertUserVote now db userId voteId optionId = (Inr (), db1)"
    and inc: "incrementVoteCount db1 optionId = (Inr (), db')"
    by (auto simp: castVote_def split: if_splits prod.splits sum.splits)
  from ins have r: "inInt4 voteId"
    by (auto simp: insertUserVote_def Let_def split: if_splits)
  from ins have "\<exists>uv\<in>set (userVotes db1). uv_userId uv = userId \<and> sint (uv_voteId uv) = voteId"
    by (auto simp: insertUserVote_def Let_def sint_word_of_int split: if_splits)
  with inc r show ?thesis
    by (simp add: hasUserVoted_iff incrementVoteCount_userVotes)
qed

lemma castVote_errors:
  assumes "fst (castVote now db userId voteId optionId) = Inl e"
  shows "e = AlreadyVoted \<and> hasUserVoted db userId voteId = Inr True
       \<or> e = ForeignKeyViolation \<and> hasUserVoted db userId voteId = Inr False
           \<and> \<not> (list_ex (\<lambda>v. sint (vote_id v) = voteId) (votes db)
                 \<and> list_ex (\<lambda>option. sint (option_id option) = optionId) (voteOptions db))
       \<or> e = IntegerOutOfRange
           \<and> (\<not> inInt4 voteId \<or> \<not> inInt4 optionId
               \<or> list_ex (\<lambda>option. sint (option_id option) = optionId
                                   \<and> option_voteCount option = Some 2147483647) (voteOptions db))"
  using assms
  by (auto simp: castVote_def hasUserVoted_def insertUserVote_def incrementVoteCount_def Let_def
      split: if_splits)

lemma find_by_key_distinct:
  assumes "x \<in> set xs" "distinct (map f xs)"
  shows "find (\<lambda>y. f y = f x) xs = Some x"
  using assms by (induction xs) (auto simp: image_iff)

lemma find_absent: "k \<notin> f ` set xs \<Longrightarrow> find (\<lambda>x. f x = k) xs = None"
  by (auto simp: find_None_iff)

lemma cleared_none_selected:
  "filter (\<lambda>ur. ur_userId ur = u \<and> ur_isSelected ur = Some True)
     (map (\<lambda>ur. if ur_userId ur = u then ur\<lparr>ur_isSelected := Some False\<rparr> else ur) xs) = []"
  by (induction xs) auto

lemma cleared_others_kept:
  "u' \<noteq> u \<Longrightarrow>
   filter (\<lambda>ur. ur_userId ur = u')
     (map (\<lambda>ur. if ur_userId ur = u then ur\<lparr>ur_isSelected := Some False\<rparr> else ur) xs)
   = filter (\<lambda>ur. ur_userId ur = u') xs"
  by (induction xs) auto

lemma cleared_conflict:
  "list_ex (\<lambda>ur. ur_userId ur = u \<and> sint (ur_regionId ur) = r)
     (map (\<lambda>ur. if ur_userId ur = u then ur\<lparr>ur_isSelected := Some False\<rparr> else ur) xs)
   = list_ex (\<lambda>ur. ur_userId ur = u \<and> sint (ur_regionId ur) = r) xs"
  by (induction xs) auto

lemma no_selected_row_no_region:
  assumes "filter (\<lambda>ur. ur_userId ur = u \<and> ur_isSelected ur = Some True) (userRegions db) = []"
  shows "getUserSelectedRegion db u = None"
proof -
  have none: "\<forall>ur\<in>set (userRegions db). \<not> (ur_userId ur = u \<and> ur_isSelected ur = Some True)"
    using assms by (simp add: filter_empty_conv)
  have e: "[r. ur \<leftarrow> userRegions db, r \<leftarrow> regions db,
            ur_regionId ur = region_id r, ur_userId ur = u, ur_isSelected ur = Some True] = []"
    unfolding concat_eq_Nil_conv using none by auto
  show ?thesis
    unfolding getUserSelectedRegion_def e by simp
qed

lemma filter_key_distinct:
  "distinct (map f xs) \<Longrightarrow> length (filter (\<lambda>x. f x = k) xs) \<le> 1"
  by (induction xs) (auto simp: image_iff filter_empty_conv)

lemma length_filter_split:
  "length (filter P xs) = length (filter (\<lambda>x. P x \<and> Q x) xs) + length (filter (\<lambda>x. P x \<and> \<not> Q x) xs)"
  by (induction xs) auto

lemma hasUserLiked_eq:
  "inInt4 voteId \<Longrightarrow>
   hasUserLiked db userId voteId =
     Inr (list_ex (\<lambda>l. like_userId l = userId \<and> sint (like_voteId l) = voteId) (likes db))"
  by (auto simp: hasUserLiked_def find_None_iff list_ex_iff)

lemma set_votesJoined:
  "set (votesJoined db P) =
     {(v, u, r). v \<in> set (votes db) \<and> u \<in> set (users db) \<and> r \<in> set (regions db)
                 \<and> vote_creatorId v = user_id u \<and> vote_regionId v = region_id r \<and> P v}"
  by (auto simp: votesJoined_def split: if_splits)

lemma fst_set_votesJoined:
  "fst ` set (votesJoined db P) = {v \<in> set (votes db). hasCreator db v \<and> hasRegion db v \<and> P v}"
  by (force simp: set_votesJoined hasCreator_def hasRegion_def list_ex_iff image_iff)

lemma set_applySort: "set (applySort s xs) = set xs"
  by (simp add: applySort_def split: option.splits sortBy.splits)

lemma list_all2_vote_fst:
  "list_all2 (\<lambda>x y. vote y = fst x) xs ys \<Longrightarrow> map vote ys = map fst xs"
  by (induction rule: list_all2_induct) auto

lemma getVotesByRegion_votes:
  assumes "inInt4 rid"
  shows "\<exists>ds. getVotesByRegion db rid uid None s = Inr ds
            \<and> vote ` set ds = {v \<in> set (votes db). hasCreator db v \<and> hasRegion db v
                                  \<and> sint (vote_regionId v) = rid}"
proof -
  define votesData where "votesData = sort_key (\<lambda>(v, u, r). desc (vote_createdAt v))
                          (votesJoined db (\<lambda>v. sint (vote_regionId v) = rid))"
  define body where "body = (\<lambda>(v :: vote, u :: user, r :: region).
             let opts = filter (\<lambda>option. option_voteId option = vote_id v) (voteOptions db) in
             andThen (case truthy uid of
                        None \<Rightarrow> Inr None
                      | Some uid \<Rightarrow> getUserVoteOption db uid (sint (vote_id v))) (\<lambda>userVoteOption.
             andThen (case truthy uid of
                        None \<Rightarrow> Inr False
                      | Some uid \<Rightarrow> hasUserLiked db uid (sint (vote_id v))) (\<lambda>liked.
               Inr \<lparr>vote = v, creator = u, region = r,
                    options = optionsWithPercentage opts,
                    totalVotes = sumVoteCounts opts,
                    hasUserVoted_of = (userVoteOption \<noteq> None),
                    userVotedOptionId = userVoteOption,
                    commentsCount = length (filter (\<lambda>c. comment_voteId c = vote_id v) (comments db)),
                    likesCount = length (filter (\<lambda>l. like_voteId l = vote_id v) (likes db)),
                    hasUserLiked_of = liked\<rparr>)))"
  have "\<exists>y. body x = Inr y \<and> vote y = fst x" for x
    by (cases x) (simp add: body_def Let_def getUserVoteOption_def hasUserLiked_def split: option.splits)
  then obtain ds where ds: "forEach body votesData = Inr ds"
    and all: "list_all2 (\<lambda>x y. vote y = fst x) votesData ds"
    using forEach_all [of votesData body "\<lambda>x y. vote y = fst x"] by blast
  have "getVotesByRegion db rid uid None s
          = andThen (forEach body votesData) (\<lambda>result. Inr (applySort s result))"
    using assms by (simp add: getVotesByRegion_def Let_def truthy_def votesData_def body_def)
  with ds have res: "getVotesByRegion db rid uid None s = Inr (applySort s ds)"
    by simp
  have "vote ` set (applySort s ds) = set (map vote ds)"
    by (simp add: set_applySort)
  also have "\<dots> = fst ` set votesData"
    using list_all2_vote_fst [OF all] by simp
  also have "\<dots> = {v \<in> set (votes db). hasCreator db v \<and> hasRegion db v \<and> sint (vote_regionId v) = rid}"
    by (simp add: votesData_def fst_set_votesJoined)
  finally show ?thesis
    using res by blast
qed

lemma getVoteById_vote:
  assumes "v \<in> set (votes db)" and "distinct (map vote_id (votes db))"
  shows "\<exists>y. getVoteById db (sint (vote_id v)) uid = Inr y
            \<and> map_option vote y = (if hasCreator db v \<and> hasRegion db v then Some v else None)"
proof -
  have same: "w = v" if "w \<in> set (votes db)" "vote_id w = vote_id v" for w
    using that assms by (meson distinct_map inj_onD)
  have fst: "fst ` set (votesJoined db (\<lambda>w. vote_id w = vote_id v))
           = (if hasCreator db v \<and> hasRegion db v then {v} else {})"
    using assms(1) same by (auto simp: fst_set_votesJoined)
  show ?thesis
  proof (cases "votesJoined db (\<lambda>w. vote_id w = vote_id v)")
    case Nil
    with fst have "\<not> (hasCreator db v \<and> hasRegion db v)"
      by (auto split: if_splits)
    with Nil show ?thesis
      by (simp add: getVoteById_def)
  next
    case (Cons x xs)
    obtain w u r where x: "x = (w, u, r)"
      by (cases x)
    from Cons x have "w \<in> fst ` set (votesJoined db (\<lambda>w. vote_id w = vote_id v))"
      by force
    with fst have "hasCreator db v \<and> hasRegion db v" "w = v"
      by (auto split: if_splits)
    with Cons x show ?thesis
      by (simp add: getVoteById_def Let_def getUserVoteOption_def hasUserLiked_def getLikesCount_def
          getCommentsByVote_def split: option.splits)
  qed
qed

lemma map_filter_selected:
  "list_all2 (\<lambda>x y. map_option vote y = (if Q x then Some x else None)) xs ys \<Longrightarrow>
   map vote (List.map_filter (\<lambda>d. d) ys) = filter Q xs"
  by (induction rule: list_all2_induct) (auto split: if_splits)

lemma concat_votes:
  "list_all2 (\<lambda>t ds. vote ` set ds = G t) ts dss \<Longrightarrow> vote ` set (concat dss) = (\<Union>t\<in>set ts. G t)"
  by (induction rule: list_all2_induct) (auto simp: image_Un)

lemma getRegionById_Some:
  "getRegionById db i = Inr (Some s) \<Longrightarrow> s \<in> set (regions db) \<and> sint (region_id s) = i \<and> inInt4 i"
  by (auto simp: getRegionById_def find_Some_iff split: if_splits)

lemma sumVoteCounts_sum_list: "sumVoteCounts opts = sum_list (map voteCountOr0 opts)"
proof -
  have "foldl (\<lambda>sum option. sum + voteCountOr0 option) a opts = a + sum_list (map voteCountOr0 opts)"
    for a
    by (induction opts arbitrary: a) auto
  then show ?thesis
    by (simp add: sumVoteCounts_def)
qed

lemma getVoteById_tally:
  assumes "getVoteById db i userId = Inr (Some d)"
  shows "totalVotes d = sum_list (map (voteCountOr0 \<circ> opt) (options d))"
    and "list_all (\<lambda>option. percentage option = percentageOf (voteCountOr0 (opt option)) (totalVotes d))
           (options d)"
    and "totalVotes d \<le> 0 \<Longrightarrow> list_all (\<lambda>option. percentage option = 0) (options d)"
proof -
  define opts where "opts = filter (\<lambda>option. sint (option_voteId option) = i) (voteOptions db)"
  have d: "options d = optionsWithPercentage opts \<and> totalVotes d = sumVoteCounts opts"
    using assms
    by (auto simp: getVoteById_def Let_def andThen_def opts_def
        split: if_splits list.splits prod.splits sum.splits option.splits)
  show "totalVotes d = sum_list (map (voteCountOr0 \<circ> opt) (options d))"
    by (simp add: d optionsWithPercentage_def sumVoteCounts_sum_list comp_def)
  show "list_all (\<lambda>option. percentage option = percentageOf (voteCountOr0 (opt option)) (totalVotes d))
           (options d)"
    by (simp add: d optionsWithPercentage_def list_all_iff)
  show "totalVotes d \<le> 0 \<Longrightarrow> list_all (\<lambda>option. percentage option = 0) (options d)"
    by (simp add: d optionsWithPercentage_def list_all_iff percentageOf_def)
qed

lemma hierarchy_city:
  assumes "getRegionById db regionId = Inr (Some selected)" and "region_level selected = ''city''"
  shows "getVotesByRegionHierarchy db regionId userId searchQuery sortBy
           = getVotesByRegion db regionId userId searchQuery sortBy"
  using assms by (simp add: getVotesByRegionHierarchy_def)

lemma hierarchy_country:
  assumes "getRegionById db regionId = Inr (Some selected)" and "region_level selected = ''country''"
  shows "getVotesByRegionHierarchy db regionId userId searchQuery sortBy
           = getVotesByRegionHierarchy db regionId userId None None"
  using assms by (simp add: getVotesByRegionHierarchy_def)

lemma getVotesByRegion_sorted:
  "getVotesByRegion db regionId userId searchQuery (Some participants) = Inr ds
     \<Longrightarrow> sorted (map (\<lambda>a. - totalVotes a) ds)"
  "getVotesByRegion db regionId userId searchQuery (Some newest) = Inr ds
     \<Longrightarrow> sorted (map (\<lambda>a. - getTime (vote_createdAt (vote a))) ds)"
  "getVotesByRegion db regionId userId searchQuery (Some oldest) = Inr ds
     \<Longrightarrow> sorted (map (\<lambda>a. getTime (vote_createdAt (vote a))) ds)"
  by (auto simp: getVotesByRegion_def applySort_def Let_def andThen_def split: if_splits sum.splits)

section \<open>The claims\<close>

subsection \<open>C1: the tally and the percentages\<close>

text \<open>
  C1 says that the aggregation queries report, for every poll, totalVotes as the sum of
  voteCount over its options and, for each option, round-half-up of
  \<open>voteCount / totalVotes * 100\<close> (0 without votes). The sum and the zero case hold
  (\<open>getVoteById_tally\<close>), and so does the example with 3 and 1 votes. The rounding holds
  wherever the exact value is no tie (\<open>percentageOf_spec\<close>) and fails at ties: the source
  divides first and multiplies by 100 afterwards, in binary64, so that 23 of 40 votes
  give 57.49999999999999 and \<^verbatim>\<open>Math.round\<close> yields 57, where the exact quotient
  57.5 rounds half up to 58. The theorem evaluates both queries on the dinner poll of the
  example (23 and 17 votes).
\<close>

theorem percentage_of_23_in_40:
  "map_sum (\<lambda>e. e) (map_option (\<lambda>d. (totalVotes d, map percentage (options d))))
     (getVoteById exampleDb 2 None) = Inr (Some (40, [57, 43]))
   \<and> map_sum (\<lambda>e. e) (map (\<lambda>d. (totalVotes d, map percentage (options d))))
       (getVotesByRegion exampleDb 2 None None None) = Inr [(40, [57, 43])]
   \<and> specPercentage 23 40 = 58
   \<and> map_sum (\<lambda>e. e) (map_option (\<lambda>d. (totalVotes d, map percentage (options d))))
       (getVoteById exampleDb 1 None) = Inr (Some (4, [75, 25]))"
  by code_simp

subsection \<open>C2: the polls visible from a region\<close>

text \<open>
  C2 says that for every existing region getVotesByRegionHierarchy returns exactly the
  polls visible under the three-level rule. The queries inner-join \<^verbatim>\<open>users\<close> on the
  poll's creatorId, and the schema puts no foreign key on that column: a poll whose
  creator has no users row is never returned. In \<open>ghostDb\<close> the lunch poll belongs to
  the city Gangnam and the city's list is empty. And a search text, which the province
  and city branches hand to getVotesByRegion, removes the polls it does not match: the
  province Seoul shows the lunch poll and not its own dinner poll when asked for "Lunch".
\<close>

theorem poll_without_creator_row_hidden:
  "getVotesByRegionHierarchy ghostDb 3 None None None = Inr []
   \<and> getRegionById ghostDb 3 = Inr (Some gangnam)
   \<and> lunchPoll \<in> set (votes ghostDb)
   \<and> visibleUnderRule ghostDb gangnam lunchPoll
   \<and> map_sum (\<lambda>e. e) (map vote) (getVotesByRegionHierarchy exampleDb 2 None (Some ''Lunch'') None)
       = Inr [lunchPoll]
   \<and> getRegionById exampleDb 2 = Inr (Some seoul)
   \<and> dinnerPoll \<in> set (votes exampleDb)
   \<and> visibleUnderRule exampleDb seoul dinnerPoll"
  by code_simp

text \<open>
  C2 as amended: for every existing region of level country, province or city, and no
  search text, getVotesByRegionHierarchy returns (without error) exactly the polls whose
  creator has a users row and that are visible under the three-level rule (country: the
  polls of every region that has a row in \<^verbatim>\<open>regions\<close>, since the queries inner-join
  that table too and \<^verbatim>\<open>votes.region_id\<close> has no foreign key; province: its own polls
  and those of the regions whose parentId it is; city: its own polls), whatever the
  requesting user and the sort key. The primary key of \<^verbatim>\<open>votes\<close> is assumed.
\<close>

theorem getVotesByRegionHierarchy_visible:
  assumes sel: "getRegionById db regionId = Inr (Some selected)"
    and lvl: "region_level selected \<in> {''country'', ''province'', ''city''}"
    and pk: "distinct (map vote_id (votes db))"
  shows "map_sum (\<lambda>e. e) (\<lambda>ds. set (map vote ds))
           (getVotesByRegionHierarchy db regionId userId None sortBy) =
         Inr {v \<in> set (votes db). hasCreator db v \<and> visibleUnderRule db selected v}"
proof -
  from sel have s: "selected \<in> set (regions db)" "sint (region_id selected) = regionId" "inInt4 regionId"
    using getRegionById_Some by blast+
  have own: "hasRegion db v" if "sint (vote_regionId v) = regionId" for v
    using s that by (auto simp: hasRegion_def list_ex_iff)
  have own_iff: "sint (vote_regionId v) = regionId \<longleftrightarrow> vote_regionId v = region_id selected" for v
    using s(2) by auto
  consider (country) "region_level selected = ''country''"
    | (province) "region_level selected = ''province''"
    | (city) "region_level selected = ''city''"
    using lvl by blast
  then show ?thesis
  proof cases
    case country
    define allVotes where "allVotes = sort_key (\<lambda>v. desc (vote_createdAt v)) (votes db)"
    have "\<exists>y. getVoteById db (sint (vote_id v)) userId = Inr y
            \<and> map_option vote y = (if hasCreator db v \<and> hasRegion db v then Some v else None)"
      if "v \<in> set allVotes" for v
      using that pk by (intro getVoteById_vote) (simp_all add: allVotes_def)
    then obtain ds where ds: "forEach (\<lambda>v. getVoteById db (sint (vote_id v)) userId) allVotes = Inr ds"
      and all: "list_all2 (\<lambda>v y. map_option vote y
                  = (if hasCreator db v \<and> hasRegion db v then Some v else None)) allVotes ds"
      using forEach_all [of allVotes "\<lambda>v. getVoteById db (sint (vote_id v)) userId"
          "\<lambda>v y. map_option vote y = (if hasCreator db v \<and> hasRegion db v then Some v else None)"]
      by blast
    have "set (map vote (List.map_filter (\<lambda>d. d) ds))
        = {v \<in> set (votes db). hasCreator db v \<and> hasRegion db v}"
      unfolding map_filter_selected [OF all] by (auto simp: allVotes_def)
    with country sel ds show ?thesis
      by (simp add: getVotesByRegionHierarchy_def visibleUnderRule_def allVotes_def [symmetric])
  next
    case province
    define targetRegionIds where "targetRegionIds = regionId #
      map (\<lambda>r. sint (region_id r))
        (filter (\<lambda>r. map_option sint (region_parentId r) = Some regionId) (regions db))"
    define G where "G = (\<lambda>t. {v \<in> set (votes db). hasCreator db v \<and> hasRegion db v
                                  \<and> sint (vote_regionId v) = t})"
    have "\<exists>ds. getVotesByRegion db t userId None sortBy = Inr ds \<and> vote ` set ds = G t"
      if "t \<in> set targetRegionIds" for t
    proof -
      from that s(3) have "inInt4 t"
        by (auto simp: targetRegionIds_def)
      then show ?thesis
        unfolding G_def by (rule getVotesByRegion_votes)
    qed
    then obtain dss where dss: "forEach (\<lambda>t. getVotesByRegion db t userId None sortBy) targetRegionIds
                                  = Inr dss"
      and all: "list_all2 (\<lambda>t ds. vote ` set ds = G t) targetRegionIds dss"
      using forEach_all [of targetRegionIds "\<lambda>t. getVotesByRegion db t userId None sortBy"
          "\<lambda>t ds. vote ` set ds = G t"]
      by blast
    have parent_iff: "map_option sint (region_parentId r) = Some regionId
                      \<longleftrightarrow> region_parentId r = Some (region_id selected)" for r
      using s(2) by (cases "region_parentId r") auto
    have targets: "set targetRegionIds
        = sint ` insert (region_id selected)
                   (region_id ` {r \<in> set (regions db). region_parentId r = Some (region_id selected)})"
      unfolding targetRegionIds_def parent_iff using s(2) by auto
    have G_word: "G (sint w) = {v \<in> set (votes db). hasCreator db v \<and> hasRegion db v
                                    \<and> vote_regionId v = w}" for w
      by (simp add: G_def)
    have "(\<Union>t\<in>set targetRegionIds. G t)
        = {v \<in> set (votes db). hasCreator db v \<and>
             (vote_regionId v = region_id selected
              \<or> list_ex (\<lambda>r. region_id r = vote_regionId v
                              \<and> region_parentId r = Some (region_id selected)) (regions db))}"
      unfolding targets image_insert image_image UN_insert UN_simps G_word
      using s(1) by (auto simp: hasRegion_def list_ex_iff)
    then have "vote ` set (concat dss)
        = {v \<in> set (votes db). hasCreator db v \<and>
             (vote_regionId v = region_id selected
              \<or> list_ex (\<lambda>r. region_id r = vote_regionId v
                              \<and> region_parentId r = Some (region_id selected)) (regions db))}"
      using concat_votes [OF all] by simp
    moreover have "getVotesByRegionHierarchy db regionId userId None sortBy
        = andThen (forEach (\<lambda>t. getVotesByRegion db t userId None sortBy) targetRegionIds)
            (\<lambda>regionVotes.
               Inr (sort_key (\<lambda>a. - getTime (vote_createdAt (vote a))) (concat regionVotes)))"
      using province sel
      by (simp add: getVotesByRegionHierarchy_def Let_def targetRegionIds_def)
    ultimately show ?thesis
      using province dss by (simp add: visibleUnderRule_def)
  next
    case city
    obtain ds where ds: "getVotesByRegion db regionId userId None sortBy = Inr ds"
      and v: "vote ` set ds = {v \<in> set (votes db). hasCreator db v \<and> hasRegion db v
                                   \<and> sint (vote_regionId v) = regionId}"
      using getVotesByRegion_votes [OF s(3)] by blast
    have "vote ` set ds = {v \<in> set (votes db). hasCreator db v \<and> vote_regionId v = region_id selected}"
      unfolding v using own by (auto simp: own_iff)
    with city sel ds show ?thesis
      by (simp add: getVotesByRegionHierarchy_def visibleUnderRule_def)
  qed
qed

theorem getVotesByRegionHierarchy_visible_witness:
  "distinct (map vote_id (votes exampleDb))
   \<and> getRegionById exampleDb 1 = Inr (Some korea) \<and> region_level korea = ''country''
   \<and> map_sum (\<lambda>e. e) (\<lambda>ds. set (map vote ds)) (getVotesByRegionHierarchy exampleDb 1 None None None)
       = Inr {v \<in> set (votes exampleDb). hasCreator exampleDb v \<and> visibleUnderRule exampleDb korea v}
   \<and> map_sum (\<lambda>e. e) (map vote) (getVotesByRegionHierarchy exampleDb 1 None None None)
       = Inr [beachPoll, dinnerPoll, lunchPoll]
   \<and> getRegionById exampleDb 2 = Inr (Some seoul) \<and> region_level seoul = ''province''
   \<and> map_sum (\<lambda>e. e) (\<lambda>ds. set (map vote ds))
         (getVotesByRegionHierarchy exampleDb 2 (Some ''bob'') None (Some newest))
       = Inr {v \<in> set (votes exampleDb). hasCreator exampleDb v \<and> visibleUnderRule exampleDb seoul v}
   \<and> map_sum (\<lambda>e. e) (map vote) (getVotesByRegionHierarchy exampleDb 2 (Some ''bob'') None (Some newest))
       = Inr [dinnerPoll, lunchPoll]
   \<and> getRegionById exampleDb 3 = Inr (Some gangnam) \<and> region_level gangnam = ''city''
   \<and> map_sum (\<lambda>e. e) (\<lambda>ds. set (map vote ds))
         (getVotesByRegionHierarchy exampleDb 3 None None (Some participants))
       = Inr {v \<in> set (votes exampleDb). hasCreator exampleDb v \<and> visibleUnderRule exampleDb gangnam v}
   \<and> map_sum (\<lambda>e. e) (map vote) (getVotesByRegionHierarchy exampleDb 3 None None (Some participants))
       = Inr [lunchPoll]"
proof -
  have pk: "distinct (map vote_id (votes exampleDb))"
    by code_simp
  have r1: "getRegionById exampleDb 1 = Inr (Some korea)"
    and r2: "getRegionById exampleDb 2 = Inr (Some seoul)"
    and r3: "getRegionById exampleDb 3 = Inr (Some gangnam)"
    by code_simp+
  have l1: "region_level korea = ''country''" and l2: "region_level seoul = ''province''"
    and l3: "region_level gangnam = ''city''"
    by (simp_all add: korea_def seoul_def gangnam_def)
  have m1: "region_level korea \<in> {''country'', ''province'', ''city''}"
    and m2: "region_level seoul \<in> {''country'', ''province'', ''city''}"
    and m3: "region_level gangnam \<in> {''country'', ''province'', ''city''}"
    by (simp_all add: l1 l2 l3)
  have e1: "map_sum (\<lambda>e. e) (map vote) (getVotesByRegionHierarchy exampleDb 1 None None None)
              = Inr [beachPoll, dinnerPoll, lunchPoll]"
    by code_simp
  have e2: "map_sum (\<lambda>e. e) (map vote)
              (getVotesByRegionHierarchy exampleDb 2 (Some ''bob'') None (Some newest))
              = Inr [dinnerPoll, lunchPoll]"
    by code_simp
  have e3: "map_sum (\<lambda>e. e) (map vote)
              (getVotesByRegionHierarchy exampleDb 3 None None (Some participants)) = Inr [lunchPoll]"
    by code_simp
  show ?thesis
    using pk r1 r2 r3 l1 l2 l3 e1 e2 e3
      getVotesByRegionHierarchy_visible [OF r1 m1 pk, of None None]
      getVotesByRegionHierarchy_visible [OF r2 m2 pk, of "Some ''bob''" "Some newest"]
      getVotesByRegionHierarchy_visible [OF r3 m3 pk, of None "Some participants"]
    by blast
qed

subsection \<open>C3: one ballot per user and poll\<close>

text \<open>
  C3: after one successful castVote for a user and a poll, a second castVote for the same
  user and poll, with any optionId, fails with AlreadyVoted and leaves the database (every
  voteCount, every UserVote row) as it was.
\<close>

theorem castVote_second_fails:
  assumes "castVote now db userId voteId optionId = (Inr (), db')"
  shows "castVote now' db' userId voteId optionId' = (Inl AlreadyVoted, db')"
  using assms by (intro castVote_duplicate castVote_success_recorded)

theorem castVote_second_fails_witness:
  "fst (castVote 500 exampleDb ''alice'' 1 2) = Inr ()
   \<and> castVote 600 (snd (castVote 500 exampleDb ''alice'' 1 2)) ''alice'' 1 1
       = (Inl AlreadyVoted, snd (castVote 500 exampleDb ''alice'' 1 2))"
proof -
  have a: "fst (castVote 500 exampleDb ''alice'' 1 2) = Inr ()"
    by code_simp
  then have b: "castVote 500 exampleDb ''alice'' 1 2
                  = (Inr (), snd (castVote 500 exampleDb ''alice'' 1 2))"
    by (metis prod.collapse)
  show ?thesis
    using a castVote_second_fails [OF b, of 600 1] by blast
qed

subsection \<open>C4: the order of the list\<close>

text \<open>
  C4 says that for every region level the list of getVotesByRegionHierarchy is ordered by
  the requested sort key. The city branch passes the key to getVotesByRegion, which
  sorts by it (\<open>hierarchy_city\<close>, \<open>getVotesByRegion_sorted\<close>). The country branch never
  looks at the key (\<open>hierarchy_country\<close>) and the province branch sorts the merged list
  by createdAt descending after getVotesByRegion has applied the key. On the example,
  \<open>oldest\<close> yields the newest poll first for the country and for the province Seoul, and
  \<open>participants\<close> yields the totals 0, 40, 4 for the country.
\<close>

theorem sort_key_lost_above_city:
  "map_sum (\<lambda>e. e) (map (vote_createdAt \<circ> vote))
     (getVotesByRegionHierarchy exampleDb 1 None None (Some oldest))
     = Inr [Some 300, Some 200, Some 100]
   \<and> map_sum (\<lambda>e. e) (map totalVotes)
       (getVotesByRegionHierarchy exampleDb 1 None None (Some participants))
     = Inr [0, 40, 4]
   \<and> map_sum (\<lambda>e. e) (map (vote_createdAt \<circ> vote))
       (getVotesByRegionHierarchy exampleDb 2 None None (Some oldest))
     = Inr [Some 200, Some 100]"
  by code_simp

subsection \<open>C5: absent resources\<close>

text \<open>
  C5 says that an operation on an absent resource fails with NotFound, distinguishable
  from Forbidden. The storage layer has no such error: \<^verbatim>\<open>if (!vote || vote.creatorId !== userId)\<close>
  raises the one permission error for both, and an absent region gives the empty list.
  Poll 99 does not exist and poll 2 belongs to bob: alice gets the same error for both.
\<close>

theorem absent_poll_is_permission_error:
  "updateVote 500 exampleDb 99 ''alice'' ''Q'' [''a'', ''b''] = (Inl NoPermissionToUpdate, exampleDb)
   \<and> updateVote 500 exampleDb 2 ''alice'' ''Q'' [''a'', ''b''] = (Inl NoPermissionToUpdate, exampleDb)
   \<and> deleteVote exampleDb 99 ''alice'' = (Inl NoPermissionToDelete, exampleDb)
   \<and> deleteComment exampleDb 99 ''alice'' = (Inl NoPermissionToDeleteComment, exampleDb)
   \<and> getVotesByRegionHierarchy exampleDb 99 None None None = Inr []"
  by code_simp

text \<open>
  C5 as amended: no operation on an absent resource fails with a NotFound error. For an
  id within the range of the integer column, region resolution with a region id that
  does not exist returns the empty list and raises nothing, and updatePoll and deletePoll
  on a nonexistent poll, and deleteComment on a nonexistent comment, fail with the
  permission error that a non-owner gets. For an id outside that range (no row can have
  it) each of them raises the range error of the database. The database is unchanged in
  every case.
\<close>

theorem absent_resource_outcome:
  "(regionId \<notin> (\<lambda>r. sint (region_id r)) ` set (regions db) \<longrightarrow>
      getVotesByRegionHierarchy db regionId userId' searchQuery sortBy
        = (if inInt4 regionId then Inr [] else Inl IntegerOutOfRange))
   \<and> (voteId \<notin> (\<lambda>v. sint (vote_id v)) ` set (votes db) \<longrightarrow>
        updateVote now db voteId userId question opts
          = (Inl (if inInt4 voteId then NoPermissionToUpdate else IntegerOutOfRange), db)
      \<and> deleteVote db voteId userId
          = (Inl (if inInt4 voteId then NoPermissionToDelete else IntegerOutOfRange), db))
   \<and> (commentId \<notin> (\<lambda>c. sint (comment_id c)) ` set (comments db) \<longrightarrow>
        deleteComment db commentId userId
          = (Inl (if inInt4 commentId then NoPermissionToDeleteComment else IntegerOutOfRange), db))"
  by (simp add: getVotesByRegionHierarchy_def getRegionById_def updateVote_def deleteVote_def
      deleteComment_def find_absent)

theorem absent_resource_outcome_witness:
  "99 \<notin> (\<lambda>r. sint (region_id r)) ` set (regions exampleDb)
   \<and> getVotesByRegionHierarchy exampleDb 99 (Some ''alice'') (Some ''lunch'') (Some newest) = Inr []
   \<and> 99 \<notin> (\<lambda>v. sint (vote_id v)) ` set (votes exampleDb)
   \<and> updateVote 500 exampleDb 99 ''alice'' ''Q'' [''a'', ''b''] = (Inl NoPermissionToUpdate, exampleDb)
   \<and> deleteVote exampleDb 99 ''alice'' = (Inl NoPermissionToDelete, exampleDb)
   \<and> 99 \<notin> (\<lambda>c. sint (comment_id c)) ` set (comments exampleDb)
   \<and> deleteComment exampleDb 99 ''alice'' = (Inl NoPermissionToDeleteComment, exampleDb)
   \<and> 2147483648 \<notin> (\<lambda>r. sint (region_id r)) ` set (regions exampleDb)
   \<and> getVotesByRegionHierarchy exampleDb 2147483648 None None None = Inl IntegerOutOfRange
   \<and> 2147483648 \<notin> (\<lambda>v. sint (vote_id v)) ` set (votes exampleDb)
   \<and> updateVote 500 exampleDb 2147483648 ''alice'' ''Q'' [''a'', ''b'']
       = (Inl IntegerOutOfRange, exampleDb)
   \<and> deleteVote exampleDb 2147483648 ''alice'' = (Inl IntegerOutOfRange, exampleDb)
   \<and> 2147483648 \<notin> (\<lambda>c. sint (comment_id c)) ` set (comments exampleDb)
   \<and> deleteComment exampleDb 2147483648 ''alice'' = (Inl IntegerOutOfRange, exampleDb)"
proof -
  have a: "99 \<notin> (\<lambda>r. sint (region_id r)) ` set (regions exampleDb)"
    "2147483648 \<notin> (\<lambda>r. sint (region_id r)) ` set (regions exampleDb)"
    by code_simp+
  have b: "99 \<notin> (\<lambda>v. sint (vote_id v)) ` set (votes exampleDb)"
    "2147483648 \<notin> (\<lambda>v. sint (vote_id v)) ` set (votes exampleDb)"
    by code_simp+
  have c: "99 \<notin> (\<lambda>c. sint (comment_id c)) ` set (comments exampleDb)"
    "2147483648 \<notin> (\<lambda>c. sint (comment_id c)) ` set (comments exampleDb)"
    by code_simp+
  have d: "inInt4 99" "\<not> inInt4 2147483648"
    by (simp_all add: inInt4_def)
  show ?thesis
    using a b c d
      absent_resource_outcome [of 99 exampleDb "Some ''alice''" "Some ''lunch''" "Some newest"
        99 500 "''alice''" "''Q''" "[''a'', ''b'']" 99]
      absent_resource_outcome [of 2147483648 exampleDb None None None
        2147483648 500 "''alice''" "''Q''" "[''a'', ''b'']" 2147483648]
    by simp
qed

subsection \<open>C6: toggleLike\<close>

text \<open>
  C6: toggleLike deletes the Like row of the pair and reports unliked when there is one,
  inserts one and reports liked otherwise; two calls in succession bring back the
  original liked state and the original likesCount. The poll exists (the insert has a
  foreign key on it) and \<^verbatim>\<open>likes\<close> satisfies its unique constraint.
\<close>

theorem toggleLike_involution:
  assumes poll: "list_ex (\<lambda>v. sint (vote_id v) = voteId) (votes db)"
    and uniq: "distinct (map (\<lambda>l. (like_userId l, like_voteId l)) (likes db))"
  shows "let liked = list_ex (\<lambda>l. like_userId l = userId \<and> sint (like_voteId l) = voteId) (likes db);
             (r1, db1) = toggleLike now db userId voteId;
             (r2, db2) = toggleLike now' db1 userId voteId
         in hasUserLiked db userId voteId = Inr liked
          \<and> r1 = Inr (\<not> liked)
          \<and> hasUserLiked db1 userId voteId = Inr (\<not> liked)
          \<and> r2 = Inr liked
          \<and> hasUserLiked db2 userId voteId = Inr liked
          \<and> getLikesCount db voteId = Inr (length (filter (\<lambda>l. sint (like_voteId l) = voteId) (likes db)))
          \<and> getLikesCount db2 voteId = getLikesCount db voteId"
proof -
  define mine :: "like \<Rightarrow> bool" where "mine = (\<lambda>l. like_userId l = userId \<and> sint (like_voteId l) = voteId)"
  have r: "inInt4 voteId"
    using poll by (auto simp: list_ex_iff)
  have liked_iff: "list_ex mine (likes db) \<longleftrightarrow> filter mine (likes db) \<noteq> []"
    by (auto simp: list_ex_iff filter_empty_conv)
  show ?thesis
  proof (cases "list_ex mine (likes db)")
    case True
    then have ne: "filter mine (likes db) \<noteq> []"
      by (simp add: liked_iff)
    have "length (filter (\<lambda>l. (like_userId l, like_voteId l) = (userId, word_of_int voteId)) (likes db)) \<le> 1"
      using uniq by (rule filter_key_distinct)
    moreover have "(\<lambda>l. (like_userId l, like_voteId l) = (userId, word_of_int voteId)) = mine"
      using r by (auto simp: mine_def sint_word_of_int fun_eq_iff)
    ultimately have "length (filter mine (likes db)) \<le> 1"
      by simp
    with ne have one: "length (filter mine (likes db)) = 1"
      by (cases "filter mine (likes db)") auto
    have "length (filter (\<lambda>l. sint (like_voteId l) = voteId) (likes db))
        = length (filter (\<lambda>l. sint (like_voteId l) = voteId \<and> like_userId l = userId) (likes db))
        + length (filter (\<lambda>l. sint (like_voteId l) = voteId \<and> \<not> like_userId l = userId) (likes db))"
      by (rule length_filter_split)
    moreover have "(\<lambda>l. sint (like_voteId l) = voteId \<and> like_userId l = userId) = mine"
      by (auto simp: mine_def)
    ultimately have cnt: "length (filter (\<lambda>l. sint (like_voteId l) = voteId) (likes db))
        = Suc (length (filter (\<lambda>l. sint (like_voteId l) = voteId \<and> like_userId l \<noteq> userId) (likes db)))"
      using one by simp
    have conj: "(\<lambda>l. (like_userId l = userId \<longrightarrow> sint (like_voteId l) \<noteq> voteId) \<and> sint (like_voteId l) = voteId)
              = (\<lambda>l. sint (like_voteId l) = voteId \<and> like_userId l \<noteq> userId)"
      by auto
    have gone: "\<not> list_ex mine (filter (\<lambda>l. \<not> mine l) (likes db))"
      by (auto simp: list_ex_iff)
    show ?thesis
      using True ne poll cnt r gone
      by (simp add: toggleLike_def Let_def hasUserLiked_eq getLikesCount_def mine_def conj
          sint_word_of_int)
  next
    case False
    then have none: "filter mine (likes db) = []"
      by (simp add: liked_iff)
    then have keep: "filter (\<lambda>l. like_userId l = userId \<longrightarrow> sint (like_voteId l) \<noteq> voteId) (likes db) = likes db"
      by (auto simp: filter_empty_conv filter_id_conv mine_def)
    show ?thesis
      using False none poll keep r
      by (simp add: toggleLike_def Let_def hasUserLiked_eq getLikesCount_def mine_def
          sint_word_of_int)
  qed
qed

theorem toggleLike_involution_witness:
  "list_ex (\<lambda>v. sint (vote_id v) = 1) (votes exampleDb)
   \<and> distinct (map (\<lambda>l. (like_userId l, like_voteId l)) (likes exampleDb))
   \<and> hasUserLiked exampleDb ''bob'' 1 = Inr True
   \<and> fst (toggleLike 500 exampleDb ''bob'' 1) = Inr False
   \<and> hasUserLiked (snd (toggleLike 500 exampleDb ''bob'' 1)) ''bob'' 1 = Inr False
   \<and> fst (toggleLike 600 (snd (toggleLike 500 exampleDb ''bob'' 1)) ''bob'' 1) = Inr True
   \<and> hasUserLiked (snd (toggleLike 600 (snd (toggleLike 500 exampleDb ''bob'' 1)) ''bob'' 1)) ''bob'' 1
       = Inr True
   \<and> getLikesCount exampleDb 1 = Inr 1
   \<and> getLikesCount (snd (toggleLike 600 (snd (toggleLike 500 exampleDb ''bob'' 1)) ''bob'' 1)) 1
       = getLikesCount exampleDb 1"
proof -
  have a: "list_ex (\<lambda>v. sint (vote_id v) = 1) (votes exampleDb)"
    by code_simp
  have b: "distinct (map (\<lambda>l. (like_userId l, like_voteId l)) (likes exampleDb))"
    by code_simp
  have c: "list_ex (\<lambda>l. like_userId l = ''bob'' \<and> sint (like_voteId l) = 1) (likes exampleDb)"
    by code_simp
  have d: "length (filter (\<lambda>l. sint (like_voteId l) = 1) (likes exampleDb)) = 1"
    by code_simp
  show ?thesis
    using a b c d toggleLike_involution [OF a b, of "''bob''" 500 600]
    by (simp add: Let_def case_prod_beta)
qed

subsection \<open>C7: updatePoll by a non-creator\<close>

text \<open>
  C7: for every poll and every requesting user other than the poll's creator, updatePoll
  fails with the permission error (Forbidden) and leaves the database, so the poll's
  question and all its options with their counts, unchanged.
\<close>

theorem updateVote_non_creator:
  assumes "v \<in> set (votes db)" and "distinct (map vote_id (votes db))"
    and "userId \<noteq> vote_creatorId v"
  shows "updateVote now db (sint (vote_id v)) userId question opts = (Inl NoPermissionToUpdate, db)"
  using assms find_by_key_distinct [of v "votes db" vote_id]
  by (simp add: updateVote_def)

theorem updateVote_non_creator_witness:
  "dinnerPoll \<in> set (votes exampleDb)
   \<and> distinct (map vote_id (votes exampleDb))
   \<and> ''alice'' \<noteq> vote_creatorId dinnerPoll
   \<and> sint (vote_id dinnerPoll) = 2
   \<and> updateVote 500 exampleDb 2 ''alice'' ''Supper'' [''a'', ''b'']
       = (Inl NoPermissionToUpdate, exampleDb)"
proof -
  have a: "dinnerPoll \<in> set (votes exampleDb)"
    by (simp add: exampleDb_def)
  have b: "distinct (map vote_id (votes exampleDb))"
    by code_simp
  have c: "''alice'' \<noteq> vote_creatorId dinnerPoll"
    by (simp add: dinnerPoll_def)
  have d: "sint (vote_id dinnerPoll) = 2"
    by (simp add: dinnerPoll_def)
  show ?thesis
    using a b c d updateVote_non_creator [OF a b c, of 500 "''Supper''" "[''a'', ''b'']"]
    by simp
qed

subsection \<open>C8: deletePoll cascades\<close>

text \<open>
  C8: after a successful deletePoll no PollOption, UserVote, Comment or Like row
  references the poll, the poll is gone, and no UserVote row references one of its
  former options; and deletePoll succeeds only for the creator of a poll with that id.
\<close>

theorem deleteVote_cascade:
  assumes "deleteVote db voteId userId = (Inr (), db')"
  shows "(\<forall>option\<in>set (voteOptions db'). sint (option_voteId option) \<noteq> voteId)
       \<and> (\<forall>uv\<in>set (userVotes db'). sint (uv_voteId uv) \<noteq> voteId)
       \<and> (\<forall>c\<in>set (comments db'). sint (comment_voteId c) \<noteq> voteId)
       \<and> (\<forall>l\<in>set (likes db'). sint (like_voteId l) \<noteq> voteId)
       \<and> (\<forall>v\<in>set (votes db'). sint (vote_id v) \<noteq> voteId)
       \<and> (\<forall>uv\<in>set (userVotes db'). \<forall>option\<in>set (voteOptions db).
             sint (option_voteId option) = voteId \<longrightarrow> uv_optionId uv \<noteq> option_id option)
       \<and> list_ex (\<lambda>v. sint (vote_id v) = voteId \<and> vote_creatorId v = userId) (votes db)"
proof -
  from assms have db': "db' = deleteVotes db voteId"
    by (auto simp: deleteVote_def split: option.splits if_splits)
  from assms obtain v where "find (\<lambda>v. sint (vote_id v) = voteId) (votes db) = Some v"
    and "vote_creatorId v = userId"
    by (auto simp: deleteVote_def split: option.splits if_splits)
  then have owner: "list_ex (\<lambda>v. sint (vote_id v) = voteId \<and> vote_creatorId v = userId) (votes db)"
    by (auto simp: find_Some_iff list_ex_iff)
  show ?thesis
    unfolding db' using owner by (auto simp: deleteVotes_def deleteVoteOptions_def Let_def)
qed

theorem deleteVote_cascade_witness:
  "fst (deleteVote exampleDb 1 ''alice'') = Inr ()
   \<and> list_ex (\<lambda>option. sint (option_voteId option) = 1) (voteOptions exampleDb)
   \<and> list_ex (\<lambda>uv. sint (uv_voteId uv) = 1) (userVotes exampleDb)
   \<and> list_ex (\<lambda>c. sint (comment_voteId c) = 1) (comments exampleDb)
   \<and> list_ex (\<lambda>l. sint (like_voteId l) = 1) (likes exampleDb)
   \<and> \<not> list_ex (\<lambda>option. sint (option_voteId option) = 1)
           (voteOptions (snd (deleteVote exampleDb 1 ''alice'')))
   \<and> \<not> list_ex (\<lambda>uv. sint (uv_voteId uv) = 1) (userVotes (snd (deleteVote exampleDb 1 ''alice'')))
   \<and> \<not> list_ex (\<lambda>c. sint (comment_voteId c) = 1) (comments (snd (deleteVote exampleDb 1 ''alice'')))
   \<and> \<not> list_ex (\<lambda>l. sint (like_voteId l) = 1) (likes (snd (deleteVote exampleDb 1 ''alice'')))"
proof -
  have a: "fst (deleteVote exampleDb 1 ''alice'') = Inr ()"
    by code_simp
  then have b: "deleteVote exampleDb 1 ''alice'' = (Inr (), snd (deleteVote exampleDb 1 ''alice''))"
    by (metis prod.collapse)
  have c: "list_ex (\<lambda>option. sint (option_voteId option) = 1) (voteOptions exampleDb)"
    "list_ex (\<lambda>uv. sint (uv_voteId uv) = 1) (userVotes exampleDb)"
    "list_ex (\<lambda>c. sint (comment_voteId c) = 1) (comments exampleDb)"
    "list_ex (\<lambda>l. sint (like_voteId l) = 1) (likes exampleDb)"
    by code_simp+
  show ?thesis
    unfolding list_ex_iff using a c [unfolded list_ex_iff] deleteVote_cascade [OF b] by blast
qed

subsection \<open>C9: castVote and an option of another poll\<close>

text \<open>
  C9 says that castVote raises an error only for a duplicate ballot, so that it succeeds
  for any user who has not voted on pollId. castVote itself checks nothing else, but the
  insert into \<^verbatim>\<open>user_votes\<close> has the schema's foreign keys on the poll and the option:
  alice has not voted on poll 99, option 1 exists (in poll 1), poll 99 does not, and the
  call fails.
\<close>

theorem castVote_absent_poll_fails:
  "hasUserVoted exampleDb ''alice'' 99 = Inr False
   \<and> fst (castVote 500 exampleDb ''alice'' 99 1) = Inl ForeignKeyViolation
   \<and> userVotes (snd (castVote 500 exampleDb ''alice'' 99 1)) = userVotes exampleDb
   \<and> voteOptions (snd (castVote 500 exampleDb ''alice'' 99 1)) = voteOptions exampleDb"
  by code_simp

text \<open>
  C9 as amended: castVote itself checks only the duplicate ballot and does not check that
  optionId belongs to pollId. For any user who has not yet voted on an existing pollId it
  succeeds for every existing optionId, also one of a different poll, whose count is
  below the 32-bit maximum: it inserts the UserVote row and adds 1 to the voteCount of
  the rows with that option id (a NULL count stays NULL), and changes nothing else but
  the sequence of \<^verbatim>\<open>user_votes\<close>. The failures are those of \<open>castVote_errors\<close>.
\<close>

theorem castVote_foreign_option:
  assumes "hasUserVoted db userId voteId = Inr False"
    and "voteId \<in> (\<lambda>v. sint (vote_id v)) ` set (votes db)"
    and "optionId \<in> (\<lambda>option. sint (option_id option)) ` set (voteOptions db)"
    and "\<forall>option\<in>set (voteOptions db).
           sint (option_id option) = optionId \<longrightarrow> option_voteCount option \<noteq> Some 2147483647"
  shows "castVote now db userId voteId optionId =
           (Inr (),
            db\<lparr>userVotes_seq := userVotes_seq db + 1,
               userVotes := userVotes db @
                 [\<lparr>uv_id = userVotes_seq db, uv_userId = userId, uv_voteId = word_of_int voteId,
                   uv_optionId = word_of_int optionId, uv_createdAt = Some now\<rparr>],
               voteOptions :=
                 map (\<lambda>option. if sint (option_id option) = optionId
                                then option\<lparr>option_voteCount :=
                                       map_option (\<lambda>c. c + 1) (option_voteCount option)\<rparr>
                                else option) (voteOptions db)\<rparr>)"
proof -
  have r: "inInt4 voteId" "inInt4 optionId"
    using assms(2,3) by auto
  have v: "list_ex (\<lambda>v. sint (vote_id v) = voteId) (votes db)"
    using assms(2) by (auto simp: list_ex_iff)
  have op: "list_ex (\<lambda>option. sint (option_id option) = optionId) (voteOptions db)"
    using assms(3) by (auto simp: list_ex_iff)
  have ok: "\<not> list_ex (\<lambda>option. sint (option_id option) = optionId
                                 \<and> option_voteCount option = Some 2147483647) (voteOptions db)"
    using assms(4) by (auto simp: list_ex_iff)
  show ?thesis
    using assms(1) r v op ok
    by (simp add: castVote_def insertUserVote_def incrementVoteCount_def Let_def)
qed

theorem castVote_foreign_option_witness:
  "hasUserVoted exampleDb ''alice'' 2 = Inr False
   \<and> 2 \<in> (\<lambda>v. sint (vote_id v)) ` set (votes exampleDb)
   \<and> 1 \<in> (\<lambda>option. sint (option_id option)) ` set (voteOptions exampleDb)
   \<and> map (\<lambda>option. (sint (option_voteId option), map_option sint (option_voteCount option)))
         (filter (\<lambda>option. sint (option_id option) = 1) (voteOptions exampleDb)) = [(1, Some 3)]
   \<and> fst (castVote 500 exampleDb ''alice'' 2 1) = Inr ()
   \<and> map (\<lambda>option. map_option sint (option_voteCount option))
         (voteOptions (snd (castVote 500 exampleDb ''alice'' 2 1)))
       = [Some 4, Some 1, Some 23, Some 17]
   \<and> map (\<lambda>uv. (uv_userId uv, sint (uv_voteId uv), sint (uv_optionId uv)))
         (userVotes (snd (castVote 500 exampleDb ''alice'' 2 1)))
       = [(''bob'', 1, 1), (''alice'', 2, 1)]"
proof -
  have a: "hasUserVoted exampleDb ''alice'' 2 = Inr False"
    by code_simp
  have b: "2 \<in> (\<lambda>v. sint (vote_id v)) ` set (votes exampleDb)"
    by code_simp
  have c: "1 \<in> (\<lambda>option. sint (option_id option)) ` set (voteOptions exampleDb)"
    by code_simp
  have d: "\<forall>option\<in>set (voteOptions exampleDb).
             sint (option_id option) = 1 \<longrightarrow> option_voteCount option \<noteq> Some 2147483647"
    by (simp add: exampleDb_def)
  have e: "map (\<lambda>option. (sint (option_voteId option), map_option sint (option_voteCount option)))
             (filter (\<lambda>option. sint (option_id option) = 1) (voteOptions exampleDb)) = [(1, Some 3)]"
    by code_simp
  have f: "fst (castVote 500 exampleDb ''alice'' 2 1) = Inr ()"
    using castVote_foreign_option [OF a b c d, of 500] by simp
  have g: "map (\<lambda>option. map_option sint (option_voteCount option))
             (voteOptions (snd (castVote 500 exampleDb ''alice'' 2 1)))
           = [Some 4, Some 1, Some 23, Some 17]"
    by code_simp
  have h: "map (\<lambda>uv. (uv_userId uv, sint (uv_voteId uv), sint (uv_optionId uv)))
             (userVotes (snd (castVote 500 exampleDb ''alice'' 2 1)))
           = [(''bob'', 1, 1), (''alice'', 2, 1)]"
    by code_simp
  show ?thesis
    using a b c e f g h by blast
qed

subsection \<open>C10: the selected region of a user\<close>

text \<open>
  C10: setUserSelectedRegion clears isSelected on every row of the user and then inserts
  (userId, regionId, true) unless a row of that pair exists. Afterwards the user has at most
  one selected row and the rows of the other users are as before; when a row of the pair
  existed before the call the user has no selected row and getUserSelectedRegion returns
  nothing, otherwise the one selected row is the new one. A regionId outside the range of
  the column makes the insert raise after the rows have been cleared, and leaves the user
  without a selected row.
\<close>

theorem setUserSelectedRegion_selected_rows:
  "let (r, db') = setUserSelectedRegion now db userId regionId;
       selected = filter (\<lambda>ur. ur_userId ur = userId \<and> ur_isSelected ur = Some True) (userRegions db')
   in r = (if inInt4 regionId then Inr () else Inl IntegerOutOfRange)
    \<and> length selected \<le> 1
    \<and> (\<forall>u. u \<noteq> userId \<longrightarrow>
          filter (\<lambda>ur. ur_userId ur = u) (userRegions db') = filter (\<lambda>ur. ur_userId ur = u) (userRegions db))
    \<and> (if list_ex (\<lambda>ur. ur_userId ur = userId \<and> sint (ur_regionId ur) = regionId) (userRegions db)
        then selected = [] \<and> getUserSelectedRegion db' userId = None
        else if inInt4 regionId then map (\<lambda>ur. sint (ur_regionId ur)) selected = [regionId]
        else selected = [])"
proof (cases "list_ex (\<lambda>ur. ur_userId ur = userId \<and> sint (ur_regionId ur) = regionId) (userRegions db)")
  case True
  then have "inInt4 regionId"
    by (auto simp: list_ex_iff)
  with True show ?thesis
    by (simp add: setUserSelectedRegion_def Let_def cleared_conflict cleared_none_selected
        cleared_others_kept no_selected_row_no_region)
next
  case False
  then show ?thesis
    by (simp add: setUserSelectedRegion_def Let_def cleared_conflict cleared_none_selected
        cleared_others_kept sint_word_of_int)
qed

theorem setUserSelectedRegion_selected_rows_witness:
  "list_ex (\<lambda>ur. ur_userId ur = ''alice'' \<and> sint (ur_regionId ur) = 3) (userRegions exampleDb)
   \<and> getUserSelectedRegion exampleDb ''alice'' = Some gangnam
   \<and> fst (setUserSelectedRegion 500 exampleDb ''alice'' 3) = Inr ()
   \<and> getUserSelectedRegion (snd (setUserSelectedRegion 500 exampleDb ''alice'' 3)) ''alice'' = None
   \<and> ''bob'' \<noteq> ''alice''
   \<and> filter (\<lambda>ur. ur_userId ur = ''bob'') (userRegions (snd (setUserSelectedRegion 500 exampleDb ''alice'' 3)))
       = filter (\<lambda>ur. ur_userId ur = ''bob'') (userRegions exampleDb)
   \<and> \<not> list_ex (\<lambda>ur. ur_userId ur = ''alice'' \<and> sint (ur_regionId ur) = 2) (userRegions exampleDb)
   \<and> map (\<lambda>ur. sint (ur_regionId ur))
         (filter (\<lambda>ur. ur_userId ur = ''alice'' \<and> ur_isSelected ur = Some True)
            (userRegions (snd (setUserSelectedRegion 500 exampleDb ''alice'' 2)))) = [2]
   \<and> fst (setUserSelectedRegion 500 exampleDb ''alice'' 2147483648) = Inl IntegerOutOfRange
   \<and> filter (\<lambda>ur. ur_userId ur = ''alice'' \<and> ur_isSelected ur = Some True)
         (userRegions (snd (setUserSelectedRegion 500 exampleDb ''alice'' 2147483648))) = []"
proof -
  have a: "list_ex (\<lambda>ur. ur_userId ur = ''alice'' \<and> sint (ur_regionId ur) = 3) (userRegions exampleDb)"
    by code_simp
  have b: "getUserSelectedRegion exampleDb ''alice'' = Some gangnam"
    by code_simp
  have c: "\<not> list_ex (\<lambda>ur. ur_userId ur = ''alice'' \<and> sint (ur_regionId ur) = 2) (userRegions exampleDb)"
    "\<not> list_ex (\<lambda>ur. ur_userId ur = ''alice'' \<and> sint (ur_regionId ur) = 2147483648)
         (userRegions exampleDb)"
    by code_simp+
  have d: "inInt4 3" "inInt4 2" "\<not> inInt4 2147483648"
    by (simp_all add: inInt4_def)
  show ?thesis
    using a b c d setUserSelectedRegion_selected_rows [of 500 exampleDb "''alice''" 3]
      setUserSelectedRegion_selected_rows [of 500 exampleDb "''alice''" 2]
      setUserSelectedRegion_selected_rows [of 500 exampleDb "''alice''" 2147483648]
    by (simp add: Let_def case_prod_beta)
qed

end
